theory Spec2Isabelle
  imports Complex_Main
begin

section \<open>Python strings and numbers\<close>

text \<open>
  A Python \<open>str\<close> is modelled as a \<^typ>\<open>string\<close>, a list of 8-bit characters. The
  character classes below are Python's on the ASCII range (\<open>str.isspace\<close> and the
  \<open>\s\<close>, \<open>\d\<close>, \<open>\w\<close>, \<open>[A-Z]\<close>, \<open>[a-z]\<close> classes of \<open>re\<close>); a character above
  0x7F belongs to none of them, which is what Python says of the bytes of an emoji, and
  leaves non-ASCII letters, digits and blanks outside the model.

  The floats of the scorer are IEEE doubles: rationals, with every literal and every
  operation rounded to the nearest double (\<open>round_double\<close> below). The magnitudes of
  the contradiction detector and of the verifier are exact rationals (\<^typ>\<open>rat\<close>): their
  sums, quotients and comparisons are the exact ones, without the rounding of doubles.
  An exception is a value of \<open>py_error\<close>.
\<close>

datatype py_error = ZeroDivisionError | KeyError | TemplateEscape

definition is_space :: "char \<Rightarrow> bool" where
  "is_space c = (c \<in> set [CHR 0x09, CHR 0x0A, CHR 0x0B, CHR 0x0C, CHR 0x0D,
                            CHR 0x1C, CHR 0x1D, CHR 0x1E, CHR 0x1F, CHR 0x20])"

definition is_digit :: "char \<Rightarrow> bool" where
  "is_digit c = (c \<in> set ''0123456789'')"

definition is_upper :: "char \<Rightarrow> bool" where
  "is_upper c = (c \<in> set ''ABCDEFGHIJKLMNOPQRSTUVWXYZ'')"

definition is_lower :: "char \<Rightarrow> bool" where
  "is_lower c = (c \<in> set ''abcdefghijklmnopqrstuvwxyz'')"

definition is_word :: "char \<Rightarrow> bool" where
  "is_word c = (is_upper c \<or> is_lower c \<or> is_digit c \<or> c = CHR ''_'')"

text \<open>\<open>str.lower()\<close>.\<close>

definition lower_char :: "char \<Rightarrow> char" where
  "lower_char c =
     (case map_of (zip ''ABCDEFGHIJKLMNOPQRSTUVWXYZ'' ''abcdefghijklmnopqrstuvwxyz'') c of
        None \<Rightarrow> c
      | Some d \<Rightarrow> d)"

definition lower :: "string \<Rightarrow> string" where
  "lower s = map lower_char s"

text \<open>
  The maximal runs of characters of a class, from left to right; \<open>str.split()\<close>
  without arguments returns the maximal runs of non-blank characters.
\<close>

fun runs_acc :: "(char \<Rightarrow> bool) \<Rightarrow> string \<Rightarrow> string \<Rightarrow> string list" where
  "runs_acc P w [] = (if w = [] then [] else [w])"
| "runs_acc P w (c # cs) =
     (if P c then runs_acc P (w @ [c]) cs
      else if w = [] then runs_acc P [] cs
      else w # runs_acc P [] cs)"

definition split :: "string \<Rightarrow> string list" where
  "split s = runs_acc (\<lambda>c. \<not> is_space c) [] s"

text \<open>\<open>str.strip()\<close> without arguments.\<close>

definition strip :: "string \<Rightarrow> string" where
  "strip s = rev (dropWhile is_space (rev (dropWhile is_space s)))"

text \<open>\<open>s.startswith(p)\<close> and \<open>sub in s\<close>.\<close>

fun starts_with :: "string \<Rightarrow> string \<Rightarrow> bool" where
  "starts_with s [] = True"
| "starts_with [] (p # ps) = False"
| "starts_with (c # cs) (p # ps) = (c = p \<and> starts_with cs ps)"

fun str_contains :: "string \<Rightarrow> string \<Rightarrow> bool" where
  "str_contains [] sub = (sub = [])"
| "str_contains (c # cs) sub = (starts_with (c # cs) sub \<or> str_contains cs sub)"

text \<open>
  \<open>int(s)\<close> on a string of decimal digits, and \<open>str(n)\<close> on a natural number;
  \<open>digit_char\<close> is the digit of a number below ten, the only numbers it is applied to.
\<close>

definition digit_val :: "char \<Rightarrow> nat" where
  "digit_val c = of_char c - 48"

definition nat_of_digits :: "string \<Rightarrow> nat" where
  "nat_of_digits ds = foldl (\<lambda>n c. 10 * n + digit_val c) 0 ds"

definition digit_char :: "nat \<Rightarrow> char" where
  "digit_char n = ''0123456789'' ! n"

fun str_nat :: "nat \<Rightarrow> string" where
  "str_nat n = (if n < 10 then [digit_char n] else str_nat (n div 10) @ [digit_char (n mod 10)])"

declare str_nat.simps [simp del]

text \<open>
  \<open>float(s)\<close> on a string of digits and dots, the only strings the source passes to it
  (they are matches of \<open>[\d.]+\<close>): digits with at most one dot and at least one digit;
  anything else raises \<open>ValueError\<close>, here \<open>None\<close>.
\<close>

definition py_float :: "string \<Rightarrow> rat option" where
  "py_float s =
     (let ip = takeWhile is_digit s; r = dropWhile is_digit s in
      if r = [] then (if ip = [] then None else Some (of_nat (nat_of_digits ip)))
      else if hd r = CHR ''.'' \<and> list_all is_digit (tl r) \<and> (ip \<noteq> [] \<or> tl r \<noteq> [])
      then Some (of_nat (nat_of_digits ip) + of_nat (nat_of_digits (tl r)) / 10 ^ length (tl r))
      else None)"

text \<open>\<open>re.search(r'([\d.]+)', s)\<close>: the first maximal run of digits and dots.\<close>

definition is_numch :: "char \<Rightarrow> bool" where
  "is_numch c = (is_digit c \<or> c = CHR ''.'')"

definition search_number :: "string \<Rightarrow> string option" where
  "search_number s =
     (let r = dropWhile (\<lambda>c. \<not> is_numch c) s in
      if r = [] then None else Some (takeWhile is_numch r))"

text \<open>
  Rounding to the nearest integer, ties to the even one, as \<open>round\<close> and the \<open>.1f\<close>
  format do; \<open>f"{x:.1f}"\<close>.
\<close>

definition round_half_even :: "rat \<Rightarrow> int" where
  "round_half_even x =
     (let f = \<lfloor>x\<rfloor>; r = x - of_int f in
      if r < 1 / 2 then f else if r > 1 / 2 then f + 1 else if even f then f else f + 1)"

text \<open>
  IEEE doubles. \<open>log2_nat n\<close> is the position of the leading bit of a positive \<open>n\<close>,
  \<open>pow2 e\<close> the power of two of an integer exponent \<open>e\<close>, and \<open>binade x\<close> the exponent
  \<open>e\<close> with \<open>pow2 e \<le> x < pow2 (e + 1)\<close> of a positive \<open>x\<close>. \<open>round_double x\<close> is the
  double nearest to \<open>x\<close>, ties to the even significand: a multiple of the unit in the
  last of the 53 bits of the binade of \<open>x\<close>, of \<open>pow2 (- 1074)\<close> for a subnormal. It is the
  value of a literal, of a sum or quotient of doubles and of the conversion of an
  \<open>int\<close>, for results of magnitude below \<open>pow2 1024\<close>; beyond, Python returns an infinity
  or raises \<open>OverflowError\<close>, which the model leaves out: the values of the scorer are at
  most the number of claims.
\<close>

fun log2_nat :: "nat \<Rightarrow> nat" where
  "log2_nat n = (if n < 2 then 0 else Suc (log2_nat (n div 2)))"

declare log2_nat.simps [simp del]

definition pow2 :: "int \<Rightarrow> rat" where
  "pow2 e = (if 0 \<le> e then 2 ^ nat e else 1 / 2 ^ nat (- e))"

definition binade :: "rat \<Rightarrow> int" where
  "binade x =
     (if 1 \<le> x then int (log2_nat (nat \<lfloor>x\<rfloor>))
      else - int (log2_nat (nat (\<lceil>1 / x\<rceil> - 1))) - 1)"

definition round_double :: "rat \<Rightarrow> rat" where
  "round_double x =
     (if x = 0 then 0
      else let u = pow2 (max (binade \<bar>x\<bar>) (- 1022) - 52)
           in of_int (round_half_even (x / u)) * u)"

definition format_1f :: "rat \<Rightarrow> string" where
  "format_1f x =
     (let n = nat (round_half_even (\<bar>x\<bar> * 10)) in
      (if x < 0 then ''-'' else '''') @ str_nat (n div 10) @ ''.'' @ str_nat (n mod 10))"

section \<open>The contradiction detector\<close>

record fact =
  entity :: string
  entity_type :: string
  sentence :: string

record contradiction =
  ctype :: string
  severity :: string
  previous_claim :: string
  current_claim :: string
  previous_value :: "string option"
  current_value :: "string option"
  difference :: "string option"
  message :: string

text \<open>\<open>_extract_number\<close>: \<open>None\<close> when no number is found or \<open>float\<close> raises.\<close>

definition extract_number :: "string \<Rightarrow> rat option" where
  "extract_number text =
     (let text_clean = filter (\<lambda>c. c \<noteq> CHR '','') text;
          multiplier = (if str_contains (lower text) ''billion'' then 1000000000
                        else if str_contains (lower text) ''million'' then 1000000
                        else if str_contains (lower text) ''thousand'' then 1000
                        else 1)
      in case search_number text_clean of
           None \<Rightarrow> None
         | Some g \<Rightarrow> (case py_float g of None \<Rightarrow> None | Some v \<Rightarrow> Some (v * multiplier)))"

text \<open>\<open>_same_subject\<close>.\<close>

definition same_subject :: "string \<Rightarrow> string \<Rightarrow> bool" where
  "same_subject sentence1 sentence2 =
     (let words1 = take 5 (split (lower sentence1));
          words2 = take 5 (split (lower sentence2));
          common = set words1 \<inter> set words2
      in card common \<ge> 2)"

text \<open>
  \<open>_check_numeric_contradiction\<close>. The quotient raises \<open>ZeroDivisionError\<close> when the
  larger of the two numbers is zero.
\<close>

definition check_numeric_contradiction ::
  "'a fact_scheme \<Rightarrow> 'a fact_scheme \<Rightarrow> py_error + contradiction option" where
  "check_numeric_contradiction fact1 fact2 =
     (case (extract_number (entity fact1), extract_number (entity fact2)) of
        (Some num1, Some num2) \<Rightarrow>
          if \<not> same_subject (sentence fact1) (sentence fact2) then Inr None
          else if max num1 num2 = 0 then Inl ZeroDivisionError
          else
            let diff_percent = \<bar>num1 - num2\<bar> / max num1 num2 * 100 in
            if diff_percent > 20 then
              Inr (Some \<lparr>ctype = ''numeric_contradiction'',
                         severity = (if diff_percent > 50 then ''high'' else ''medium''),
                         previous_claim = sentence fact2,
                         current_claim = sentence fact1,
                         previous_value = Some (entity fact2),
                         current_value = Some (entity fact1),
                         difference = Some (format_1f diff_percent @ ''% difference''),
                         message = ''Contradiction detected: Different values for the same claim''\<rparr>)
            else Inr None
      | _ \<Rightarrow> Inr None)"

text \<open>\<open>_extract_year\<close>: \<open>re.search(r'(\d{4})', text)\<close>, the first four consecutive digits.\<close>

fun search_year :: "string \<Rightarrow> string option" where
  "search_year [] = None"
| "search_year (c # cs) =
     (if length (c # cs) \<ge> 4 \<and> list_all is_digit (take 4 (c # cs)) then Some (take 4 (c # cs))
      else search_year cs)"

definition extract_year :: "string \<Rightarrow> int option" where
  "extract_year text = map_option (\<lambda>g. int (nat_of_digits g)) (search_year text)"

text \<open>\<open>_check_date_contradiction\<close>.\<close>

definition check_date_contradiction ::
  "'a fact_scheme \<Rightarrow> 'a fact_scheme \<Rightarrow> contradiction option" where
  "check_date_contradiction fact1 fact2 =
     (case (extract_year (entity fact1), extract_year (entity fact2)) of
        (Some year1, Some year2) \<Rightarrow>
          if year1 = year2 then None
          else if \<not> same_subject (sentence fact1) (sentence fact2) then None
          else Some \<lparr>ctype = ''date_contradiction'',
                      severity = ''high'',
                      previous_claim = sentence fact2,
                      current_claim = sentence fact1,
                      previous_value = Some (entity fact2),
                      current_value = Some (entity fact1),
                      difference = Some (str_nat (nat \<bar>year1 - year2\<bar>) @ '' years apart''),
                      message = ''Contradiction: Different dates for the same event''\<rparr>
      | _ \<Rightarrow> None)"

text \<open>
  The pattern \<open>[A-Z][a-z]+(?:\s+[A-Z][a-z]+)*\<close> at the start of a string: \<open>cap_word\<close>
  is one capitalised word, \<open>cap_more\<close> the greedy repetition after it. Each returns the
  text it matches. No shorter alternative can let the rest of a pattern of the source
  succeed (a lower-case letter or a blank would follow), so the greedy match is the match.
\<close>

definition cap_word :: "string \<Rightarrow> string option" where
  "cap_word s =
     (case s of
        [] \<Rightarrow> None
      | c # cs \<Rightarrow>
          if is_upper c \<and> takeWhile is_lower cs \<noteq> [] then Some (c # takeWhile is_lower cs)
          else None)"

function cap_more :: "string \<Rightarrow> string" where
  "cap_more s =
     (if takeWhile is_space s = [] then []
      else (case cap_word (dropWhile is_space s) of
              None \<Rightarrow> []
            | Some w \<Rightarrow>
                takeWhile is_space s @ w @ cap_more (drop (length w) (dropWhile is_space s))))"
  by pat_completeness auto
termination
proof (relation "measure length")
  show "wf (measure length)" by simp
next
  fix s :: string and w :: string
  assume "takeWhile is_space s \<noteq> []"
  then have "length (dropWhile is_space s) < length s"
    by (cases s) (auto simp: less_Suc_eq_le length_dropWhile_le split: if_splits)
  then show "(drop (length w) (dropWhile is_space s), s) \<in> measure length"
    by simp
qed

declare cap_more.simps [simp del]

definition cap_phrase :: "string \<Rightarrow> string option" where
  "cap_phrase s =
     (case cap_word s of
        None \<Rightarrow> None
      | Some w \<Rightarrow> Some (w @ cap_more (drop (length w) s)))"

text \<open>
  \<open>_extract_is_statement\<close>: \<open>re.search\<close> of
  \<open>([A-Z][a-z]+(?:\s+[A-Z][a-z]+)*)\s+is\s+(.+)\<close>. \<open>match_is_statement\<close> is the match
  at the start of a string. After \<open>is\<close>, the blanks \<open>\s+\<close> take as many characters as
  leave one character other than a newline for \<open>(.+)\<close>, which then runs to the end
  of the line.
\<close>

definition match_is_statement :: "string \<Rightarrow> (string \<times> string) option" where
  "match_is_statement s =
     (case cap_phrase s of
        None \<Rightarrow> None
      | Some subj \<Rightarrow>
          let r = drop (length subj) s; r1 = dropWhile is_space r in
          if takeWhile is_space r = [] \<or> \<not> starts_with r1 ''is'' then None
          else
            let r2 = drop 2 r1; n = length (takeWhile is_space r2) in
            (case filter (\<lambda>k. k < length r2 \<and> r2 ! k \<noteq> CHR 0x0A) (rev [1..<Suc n]) of
               [] \<Rightarrow> None
             | k # _ \<Rightarrow> Some (subj, takeWhile (\<lambda>c. c \<noteq> CHR 0x0A) (drop k r2))))"

fun extract_is_statement :: "string \<Rightarrow> (string \<times> string) option" where
  "extract_is_statement [] = None"
| "extract_is_statement (c # cs) =
     (case match_is_statement (c # cs) of
        Some m \<Rightarrow> Some m
      | None \<Rightarrow> extract_is_statement cs)"

text \<open>\<open>_similar_text\<close>.\<close>

definition similar_text :: "string \<Rightarrow> string \<Rightarrow> bool" where
  "similar_text text1 text2 =
     (let words1 = set (split (lower text1));
          words2 = set (split (lower text2))
      in if words1 = {} \<or> words2 = {} then False
         else (of_nat (card (words1 \<inter> words2)) :: rat) / of_nat (min (card words1) (card words2))
                > 1 / 2)"

text \<open>\<open>_check_entity_contradiction\<close>.\<close>

definition check_entity_contradiction ::
  "'a fact_scheme \<Rightarrow> 'a fact_scheme \<Rightarrow> contradiction option" where
  "check_entity_contradiction fact1 fact2 =
     (case (extract_is_statement (sentence fact1), extract_is_statement (sentence fact2)) of
        (Some (subject1, claim1), Some (subject2, claim2)) \<Rightarrow>
          if similar_text subject1 subject2 \<and> \<not> similar_text claim1 claim2
          then Some \<lparr>ctype = ''entity_contradiction'',
                      severity = ''high'',
                      previous_claim = sentence fact2,
                      current_claim = sentence fact1,
                      previous_value = None,
                      current_value = None,
                      difference = None,
                      message = ''Contradiction: Different information about '' @ subject1\<rparr>
          else None
      | _ \<Rightarrow> None)"

text \<open>\<open>_check_fact_pair\<close>.\<close>

definition check_fact_pair ::
  "'a fact_scheme \<Rightarrow> 'a fact_scheme \<Rightarrow> py_error + contradiction option" where
  "check_fact_pair fact1 fact2 =
     (if entity_type fact1 \<noteq> entity_type fact2 then Inr None
      else if entity_type fact1 \<in> set [''CARDINAL'', ''QUANTITY'', ''MONEY'', ''MEASUREMENT'', ''POPULATION'']
      then check_numeric_contradiction fact1 fact2
      else if entity_type fact1 = ''DATE'' then Inr (check_date_contradiction fact1 fact2)
      else if entity_type fact1 \<in> set [''GPE'', ''LOC'', ''PERSON'', ''ORG'']
      then Inr (check_entity_contradiction fact1 fact2)
      else Inr None)"

text \<open>
  The detector's state is \<open>session_facts\<close>, a dictionary from session ids to the list of
  the session's facts. Each method takes the state and returns the state it leaves.
\<close>

type_synonym 'a session_facts = "string \<rightharpoonup> 'a fact_scheme list"

definition add_facts ::
  "'a session_facts \<Rightarrow> string \<Rightarrow> 'a fact_scheme list \<Rightarrow> 'a session_facts" where
  "add_facts st session_id facts =
     (let st1 = (if session_id \<notin> dom st then st(session_id \<mapsto> []) else st) in
      case st1 session_id of
        None \<Rightarrow> st1
      | Some previous \<Rightarrow> st1(session_id \<mapsto> previous @ facts))"

text \<open>
  The nested iteration of \<open>detect_contradictions\<close>, with the list \<open>contradictions\<close> as
  accumulator; an exception of \<open>_check_fact_pair\<close> ends it.
\<close>

fun check_previous ::
  "'a fact_scheme \<Rightarrow> 'a fact_scheme list \<Rightarrow> contradiction list \<Rightarrow> py_error + contradiction list" where
  "check_previous new_fact [] contradictions = Inr contradictions"
| "check_previous new_fact (old_fact # olds) contradictions =
     (case check_fact_pair new_fact old_fact of
        Inl e \<Rightarrow> Inl e
      | Inr None \<Rightarrow> check_previous new_fact olds contradictions
      | Inr (Some c) \<Rightarrow> check_previous new_fact olds (contradictions @ [c]))"

fun check_new ::
  "'a fact_scheme list \<Rightarrow> 'a fact_scheme list \<Rightarrow> contradiction list \<Rightarrow> py_error + contradiction list" where
  "check_new [] previous_facts contradictions = Inr contradictions"
| "check_new (new_fact # news) previous_facts contradictions =
     (case check_previous new_fact previous_facts contradictions of
        Inl e \<Rightarrow> Inl e
      | Inr contradictions' \<Rightarrow> check_new news previous_facts contradictions')"

definition detect_contradictions ::
  "'a session_facts \<Rightarrow> string \<Rightarrow> 'a fact_scheme list
     \<Rightarrow> (py_error + contradiction list) \<times> 'a session_facts" where
  "detect_contradictions st session_id new_facts =
     (case st session_id of
        None \<Rightarrow> (Inr [], st)
      | Some previous_facts \<Rightarrow> (check_new new_facts previous_facts [], st))"

definition get_session_summary ::
  "'a session_facts \<Rightarrow> string \<Rightarrow> (nat \<times> 'a fact_scheme list) \<times> 'a session_facts" where
  "get_session_summary st session_id =
     (case st session_id of
        None \<Rightarrow> ((0, []), st)
      | Some facts \<Rightarrow> ((length facts, facts), st))"

definition clear_session :: "'a session_facts \<Rightarrow> string \<Rightarrow> 'a session_facts" where
  "clear_session st session_id =
     (if session_id \<in> dom st then st(session_id := None) else st)"

section \<open>The confidence scorer\<close>

text \<open>
  A verified fact is the fact with the keys the verifier adds. The scorer reads the
  keys \<open>verified\<close> and \<open>confidence\<close>; any text other than \<open>high\<close>, \<open>medium\<close> and \<open>low\<close>
  counts as an unknown tier in the score.
\<close>

record verified_fact = fact +
  verified :: bool
  confidence :: string
  wikipedia_url :: "string option"
  verification_note :: string
  wikipedia_title :: "string option"

text \<open>
  The dictionary \<open>stats\<close>. The report for no facts has no counts by tier: these keys are
  optional, and reading an absent one raises \<open>KeyError\<close>.
\<close>

record stats =
  total_facts :: nat
  stats_verified :: nat
  stats_unverified :: nat
  stats_unknown :: nat
  high_confidence :: "nat option"
  medium_confidence :: "nat option"
  low_confidence :: "nat option"

record categorized =
  cat_verified :: "verified_fact list"
  cat_uncertain :: "verified_fact list"
  cat_contradicted :: "verified_fact list"

record confidence_report =
  overall_confidence :: string
  confidence_score :: rat
  color :: string
  emoji :: string
  summary :: string
  report_stats :: stats
  detailed_facts :: "categorized option"

definition HIGH_CONFIDENCE_THRESHOLD :: rat where
  "HIGH_CONFIDENCE_THRESHOLD = round_double (8 / 10)"

definition MEDIUM_CONFIDENCE_THRESHOLD :: rat where
  "MEDIUM_CONFIDENCE_THRESHOLD = round_double (5 / 10)"

text \<open>The emoji of the report, as the bytes of the literals of the source file.\<close>

definition emoji_unknown :: string where
  "emoji_unknown = [CHR 0xC3, CHR 0xA2, CHR 0xE2, CHR 0x80, CHR 0x9C]"

definition emoji_low :: string where
  "emoji_low = [CHR 0xC3, CHR 0xB0, CHR 0xC5, CHR 0xB8, CHR 0xE2, CHR 0x80, CHR 0x9D, CHR 0xC2, CHR 0xB4]"

definition emoji_high :: string where
  "emoji_high = [CHR 0xC3, CHR 0xB0, CHR 0xC5, CHR 0xB8, CHR 0xC5, CHR 0xB8, CHR 0xC2, CHR 0xA2]"

definition emoji_medium :: string where
  "emoji_medium = [CHR 0xC3, CHR 0xB0, CHR 0xC5, CHR 0xB8, CHR 0xC5, CHR 0xB8, CHR 0xC2, CHR 0xA1]"

text \<open>\<open>_calculate_stats\<close>.\<close>

definition calculate_stats :: "verified_fact list \<Rightarrow> stats" where
  "calculate_stats verified_facts =
     \<lparr>total_facts = length verified_facts,
      stats_verified = length (filter (\<lambda>f. verified f = True) verified_facts),
      stats_unverified =
        length (filter (\<lambda>f. verified f = False \<and> confidence f \<noteq> ''unknown'') verified_facts),
      stats_unknown = length (filter (\<lambda>f. confidence f = ''unknown'') verified_facts),
      high_confidence = Some (length (filter (\<lambda>f. confidence f = ''high'') verified_facts)),
      medium_confidence = Some (length (filter (\<lambda>f. confidence f = ''medium'') verified_facts)),
      low_confidence = Some (length (filter (\<lambda>f. confidence f = ''low'') verified_facts))\<rparr>"

text \<open>
  \<open>_calculate_confidence_score\<close>; \<open>add_points\<close> is its loop over the facts. Each \<open>+=\<close>
  is a sum of doubles, and the quotient divides by the number of facts converted to a
  double.
\<close>

fun add_points :: "verified_fact list \<Rightarrow> rat \<Rightarrow> rat" where
  "add_points [] total_points = total_points"
| "add_points (f # fs) total_points =
     add_points fs
       (if confidence f = ''high'' then round_double (total_points + 1)
        else if confidence f = ''medium'' then round_double (total_points + round_double (6 / 10))
        else if confidence f = ''low'' then round_double (total_points + round_double (2 / 10))
        else round_double (total_points + 0))"

definition calculate_confidence_score :: "stats \<Rightarrow> verified_fact list \<Rightarrow> rat" where
  "calculate_confidence_score st verified_facts =
     (if total_facts st = 0 then 0
      else round_double (add_points verified_facts 0 / round_double (of_nat (total_facts st))))"

text \<open>
  \<open>_determine_confidence_level\<close>: the level, the colour and the emoji. The quotient
  of the two integers is the double nearest to the half of the total, and an integer is
  compared with a double by their values.
\<close>

definition determine_confidence_level ::
  "rat \<Rightarrow> stats \<Rightarrow> py_error + (string \<times> string \<times> string)" where
  "determine_confidence_level score st =
     (case low_confidence st of
        None \<Rightarrow> Inl KeyError
      | Some low \<Rightarrow>
          if (of_nat low :: rat) > round_double (of_nat (total_facts st) / 2)
          then Inr (''low'', ''red'', emoji_low)
          else if score \<ge> HIGH_CONFIDENCE_THRESHOLD then Inr (''high'', ''green'', emoji_high)
          else if score \<ge> MEDIUM_CONFIDENCE_THRESHOLD then Inr (''medium'', ''yellow'', emoji_medium)
          else Inr (''low'', ''red'', emoji_low))"

text \<open>\<open>_generate_summary\<close>.\<close>

definition generate_summary :: "stats \<Rightarrow> string \<Rightarrow> string" where
  "generate_summary st confidence_level =
     (let total = total_facts st; v = stats_verified st in
      if confidence_level = ''high''
      then ''Highly verified: '' @ str_nat v @ ''/'' @ str_nat total @ '' facts confirmed by Wikipedia''
      else if confidence_level = ''medium''
      then ''Partially verified: '' @ str_nat v @ ''/'' @ str_nat total @ '' facts confirmed, some uncertain''
      else if confidence_level = ''low''
      then (if stats_unverified st > 0
            then ''Low confidence: '' @ str_nat (stats_unverified st) @ ''/'' @ str_nat total
                   @ '' facts could not be verified''
            else ''Uncertain: Unable to verify most claims'')
      else ''No verifiable facts found'')"

text \<open>\<open>_categorize_facts\<close>.\<close>

definition categorize_facts :: "verified_fact list \<Rightarrow> categorized" where
  "categorize_facts verified_facts =
     \<lparr>cat_verified = filter (\<lambda>f. verified f = True \<and> confidence f = ''high'') verified_facts,
      cat_uncertain = filter (\<lambda>f. confidence f \<in> set [''medium'', ''unknown'']) verified_facts,
      cat_contradicted = filter (\<lambda>f. verified f = False \<and> confidence f = ''low'') verified_facts\<rparr>"

text \<open>
  \<open>round(x, 2)\<close> on a double: the value of \<open>x\<close> is rounded to two decimals, ties to
  the even digit, and the decimal is converted to the nearest double.
\<close>

definition round2 :: "rat \<Rightarrow> rat" where
  "round2 x = round_double (of_int (round_half_even (x * 100)) / 100)"

text \<open>\<open>score_response\<close>.\<close>

definition score_response :: "verified_fact list \<Rightarrow> py_error + confidence_report" where
  "score_response verified_facts =
     (if verified_facts = [] then
        Inr \<lparr>overall_confidence = ''unknown'',
             confidence_score = 0,
             color = ''gray'',
             emoji = emoji_unknown,
             summary = ''No verifiable facts found'',
             report_stats = \<lparr>total_facts = 0, stats_verified = 0, stats_unverified = 0,
                             stats_unknown = 0, high_confidence = None,
                             medium_confidence = None, low_confidence = None\<rparr>,
             detailed_facts = None\<rparr>
      else
        let st = calculate_stats verified_facts;
            score = calculate_confidence_score st verified_facts
        in case determine_confidence_level score st of
             Inl e \<Rightarrow> Inl e
           | Inr (confidence_level, col, emo) \<Rightarrow>
               Inr \<lparr>overall_confidence = confidence_level,
                    confidence_score = round2 score,
                    color = col,
                    emoji = emo,
                    summary = generate_summary st confidence_level,
                    report_stats = st,
                    detailed_facts = Some (categorize_facts verified_facts)\<rparr>)"

section \<open>The verifier\<close>

text \<open>
  The reference source is a parameter: the page of a title, with what the source reads of
  it. Everything the source does with the page (the lookup, \<open>exists()\<close>, \<open>text\<close>,
  \<open>summary\<close>, \<open>fullurl\<close>, \<open>title\<close>) happens inside one \<open>try\<close> block with one handler, so
  an exception raised by any of these steps is one outcome \<open>Inl msg\<close>, with \<open>msg\<close> the
  text of the exception.
\<close>

record page =
  page_exists :: bool
  page_text :: string
  page_summary :: string
  page_fullurl :: string
  page_title :: string

type_synonym wiki = "string \<Rightarrow> string + page"

record verification_result =
  vr_verified :: bool
  vr_confidence :: string
  vr_note :: string

text \<open>
  \<open>_extract_subject_from_sentence\<close>: the capitalised phrase at the start of the
  sentence, else the first one after \<open>The\<close> or \<open>the\<close> and blanks, else the first one
  anywhere.
\<close>

definition match_the_phrase :: "string \<Rightarrow> string option" where
  "match_the_phrase s =
     (if (starts_with s ''The'' \<or> starts_with s ''the'') \<and> takeWhile is_space (drop 3 s) \<noteq> []
      then cap_phrase (dropWhile is_space (drop 3 s))
      else None)"

fun search_the_phrase :: "string \<Rightarrow> string option" where
  "search_the_phrase [] = None"
| "search_the_phrase (c # cs) =
     (case match_the_phrase (c # cs) of
        Some g \<Rightarrow> Some g
      | None \<Rightarrow> search_the_phrase cs)"

fun search_cap_phrase :: "string \<Rightarrow> string option" where
  "search_cap_phrase [] = None"
| "search_cap_phrase (c # cs) =
     (case cap_phrase (c # cs) of
        Some g \<Rightarrow> Some g
      | None \<Rightarrow> search_cap_phrase cs)"

definition extract_subject_from_sentence :: "string \<Rightarrow> string option" where
  "extract_subject_from_sentence s =
     (case cap_phrase s of
        Some g \<Rightarrow> Some g
      | None \<Rightarrow>
          (case search_the_phrase s of
             Some g \<Rightarrow> Some g
           | None \<Rightarrow> search_cap_phrase s))"

text \<open>\<open>_create_search_query\<close>.\<close>

definition create_search_query :: "string \<Rightarrow> string \<Rightarrow> string \<Rightarrow> string" where
  "create_search_query ent ent_type sent =
     (if ent_type \<in> set [''GPE'', ''LOC'', ''PERSON'', ''ORG''] then ent
      else if ent_type \<in> set [''DATE'', ''CARDINAL'', ''QUANTITY'', ''MONEY'', ''MEASUREMENT'',
                                 ''POPULATION'', ''WEIGHT'', ''TEMPERATURE'']
      then (case extract_subject_from_sentence sent of
              Some subject \<Rightarrow> if subject \<noteq> [] then subject else []
            | None \<Rightarrow> [])
      else ent)"

text \<open>
  \<open>_check_similar_numbers\<close>. \<open>re.findall\<close> of
  \<open>([\d.]+)\s*(?:million|billion|thousand|meters|feet|km)?\<close> returns the maximal runs
  of digits and dots: what follows a run in a match holds no digit and no dot. A run that
  is no number is skipped (\<open>ValueError\<close>), and so is every run when the value is zero
  (\<open>ZeroDivisionError\<close>).
\<close>

definition check_similar_numbers :: "string \<Rightarrow> string \<Rightarrow> bool" where
  "check_similar_numbers ent text =
     (case search_number ent of
        None \<Rightarrow> False
      | Some g \<Rightarrow>
          (case py_float g of
             None \<Rightarrow> False
           | Some v \<Rightarrow>
               list_ex (\<lambda>text_num.
                          case py_float text_num of
                            None \<Rightarrow> False
                          | Some text_value \<Rightarrow> v \<noteq> 0 \<and> \<bar>text_value - v\<bar> / v < 1 / 10)
                       (runs_acc is_numch [] (lower text))))"

text \<open>\<open>re.sub(r'[,\s]', '', s)\<close>.\<close>

definition remove_commas_spaces :: "string \<Rightarrow> string" where
  "remove_commas_spaces s = filter (\<lambda>c. \<not> (c = CHR '','' \<or> is_space c)) s"

definition squote :: string where
  "squote = [CHR 0x27]"

text \<open>\<open>_verify_against_content\<close>.\<close>

definition verify_against_content :: "'a fact_scheme \<Rightarrow> string \<Rightarrow> string \<Rightarrow> verification_result" where
  "verify_against_content f ptext psummary =
     (let ent = lower (entity f) in
      if entity_type f \<in> set [''GPE'', ''LOC'', ''PERSON'', ''ORG''] then
        (if str_contains ptext ent \<or> str_contains psummary ent
         then \<lparr>vr_verified = True, vr_confidence = ''high'',
                vr_note = ''Entity found in Wikipedia''\<rparr>
         else \<lparr>vr_verified = False, vr_confidence = ''low'',
                vr_note = ''Entity not found in Wikipedia page''\<rparr>)
      else if entity_type f \<in> set [''DATE'', ''CARDINAL'', ''QUANTITY'', ''MEASUREMENT'',
                                     ''POPULATION'', ''MONEY'', ''WEIGHT'', ''TEMPERATURE''] then
        (let entity_clean = remove_commas_spaces ent;
             page_text_clean = remove_commas_spaces ptext
         in if str_contains page_text_clean entity_clean
            then \<lparr>vr_verified = True, vr_confidence = ''high'',
                   vr_note = ''Value '' @ squote @ ent @ squote @ '' found in Wikipedia''\<rparr>
            else if check_similar_numbers ent ptext
            then \<lparr>vr_verified = True, vr_confidence = ''medium'',
                   vr_note = ''Similar value found in Wikipedia''\<rparr>
            else \<lparr>vr_verified = False, vr_confidence = ''low'',
                   vr_note = ''Value '' @ squote @ ent @ squote @ '' not found in Wikipedia''\<rparr>)
      else \<lparr>vr_verified = False, vr_confidence = ''unknown'', vr_note = ''Could not verify''\<rparr>)"

text \<open>
  The results of \<open>verify_fact\<close>: the fact with the keys added. \<open>unverified\<close> is the
  dictionary of its three failure paths.
\<close>

definition unverified :: "fact \<Rightarrow> string \<Rightarrow> verified_fact" where
  "unverified f n =
     \<lparr>entity = entity f, entity_type = entity_type f, sentence = sentence f,
      verified = False, confidence = ''unknown'', wikipedia_url = None,
      verification_note = n, wikipedia_title = None\<rparr>"

definition verify_fact :: "wiki \<Rightarrow> fact \<Rightarrow> verified_fact" where
  "verify_fact wiki f =
     (let search_query = create_search_query (entity f) (entity_type f) (sentence f) in
      if search_query = [] \<or> length (strip search_query) < 2
      then unverified f ''Could not create valid search query''
      else
        (case wiki search_query of
           Inl e \<Rightarrow> unverified f (''Error accessing Wikipedia: '' @ e)
         | Inr p \<Rightarrow>
             if \<not> page_exists p
             then unverified f (''No Wikipedia page found for '' @ squote @ search_query @ squote)
             else
               let r = verify_against_content f (lower (page_text p)) (lower (page_summary p))
               in \<lparr>entity = entity f, entity_type = entity_type f, sentence = sentence f,
                    verified = vr_verified r, confidence = vr_confidence r,
                    wikipedia_url = Some (page_fullurl p),
                    verification_note = vr_note r,
                    wikipedia_title = Some (page_title p)\<rparr>))"

text \<open>\<open>verify_facts\<close>: the loop appends the result of each fact.\<close>

fun verify_facts_loop :: "wiki \<Rightarrow> fact list \<Rightarrow> verified_fact list \<Rightarrow> verified_fact list" where
  "verify_facts_loop wiki [] verified_facts = verified_facts"
| "verify_facts_loop wiki (f # fs) verified_facts =
     verify_facts_loop wiki fs (verified_facts @ [verify_fact wiki f])"

definition verify_facts :: "wiki \<Rightarrow> fact list \<Rightarrow> verified_fact list" where
  "verify_facts wiki facts = verify_facts_loop wiki facts []"

section \<open>The response formatter\<close>

record span =
  span_text :: string
  span_status :: string
  span_color :: string
  span_emoji :: string
  span_confidence :: string
  span_url :: "string option"
  span_note :: string

text \<open>The emoji of the spans, as UTF-8 bytes.\<close>

definition emoji_cross :: string where
  "emoji_cross = [CHR 0xE2, CHR 0x9D, CHR 0x8C]"

definition emoji_check :: string where
  "emoji_check = [CHR 0xE2, CHR 0x9C, CHR 0x85]"

definition emoji_warning :: string where
  "emoji_warning = [CHR 0xE2, CHR 0x9A, CHR 0xA0, CHR 0xEF, CHR 0xB8, CHR 0x8F]"

definition emoji_question :: string where
  "emoji_question = [CHR 0xE2, CHR 0x9D, CHR 0x93]"

text \<open>\<open>_create_fact_spans\<close>.\<close>

definition contradicted_entities :: "contradiction list \<Rightarrow> string set" where
  "contradicted_entities contradictions =
     set (map lower (List.map_filter current_value contradictions))"

definition fact_span :: "string set \<Rightarrow> verified_fact \<Rightarrow> span" where
  "fact_span contradicted f =
     (let (st, col, emo) =
            (if lower (entity f) \<in> contradicted then (''contradicted'', ''red'', emoji_cross)
             else if verified f \<and> confidence f = ''high'' then (''verified'', ''green'', emoji_check)
             else if verified f \<and> confidence f = ''medium'' then (''uncertain'', ''yellow'', emoji_warning)
             else (''unverified'', ''orange'', emoji_question))
      in \<lparr>span_text = entity f, span_status = st, span_color = col, span_emoji = emo,
           span_confidence = confidence f, span_url = wikipedia_url f,
           span_note = verification_note f\<rparr>)"

definition create_fact_spans :: "verified_fact list \<Rightarrow> contradiction list \<Rightarrow> span list" where
  "create_fact_spans verified_facts contradictions =
     map (fact_span (contradicted_entities contradictions)) verified_facts"

text \<open>
  \<open>re.sub(r'\b' + re.escape(entity) + r'\b', repl, text, count=1)\<close>. \<open>word_boundary\<close>
  is \<open>\b\<close> between the character before a position (none at the start) and the rest of
  the text; \<open>match_here\<close> is a match of the pattern at a position; \<open>sub_first\<close> replaces
  the leftmost match, if there is one.

  A replacement text with a backslash is a template for \<open>re.sub\<close>, which expands the
  escapes in it and raises \<open>re.error\<close> on an unknown one. The model does not follow
  templates: \<open>re_sub_first\<close> returns \<open>TemplateEscape\<close> for them, and what is proved
  below of a rendering is about replacement texts without a backslash.
\<close>

definition word_boundary :: "char option \<Rightarrow> string \<Rightarrow> bool" where
  "word_boundary prev rest =
     ((case prev of None \<Rightarrow> False | Some c \<Rightarrow> is_word c)
        \<noteq> (case rest of [] \<Rightarrow> False | c # _ \<Rightarrow> is_word c))"

definition match_here :: "string \<Rightarrow> char option \<Rightarrow> string \<Rightarrow> bool" where
  "match_here ent prev s =
     (starts_with s ent \<and> word_boundary prev s
        \<and> word_boundary (if ent = [] then prev else Some (last ent)) (drop (length ent) s))"

fun sub_first :: "string \<Rightarrow> string \<Rightarrow> char option \<Rightarrow> string \<Rightarrow> string" where
  "sub_first ent repl prev [] = (if match_here ent prev [] then repl else [])"
| "sub_first ent repl prev (c # cs) =
     (if match_here ent prev (c # cs) then repl @ drop (length ent) (c # cs)
      else c # sub_first ent repl (Some c) cs)"

definition re_sub_first :: "string \<Rightarrow> string \<Rightarrow> string \<Rightarrow> py_error + string" where
  "re_sub_first ent repl text =
     (if CHR 0x5C \<in> set repl then Inl TemplateEscape
      else Inr (sub_first ent repl None text))"

text \<open>
  \<open>sorted(fact_spans, key=lambda x: len(x['text']), reverse=True)\<close>: longest text first,
  spans of equal length in the order of the list.
\<close>

definition sorted_spans :: "span list \<Rightarrow> span list" where
  "sorted_spans fact_spans = sort_key (\<lambda>x. - int (length (span_text x))) fact_spans"

definition dquote :: string where
  "dquote = [CHR 0x22]"

text \<open>\<open>_create_html_format\<close>.\<close>

definition html_span :: "span \<Rightarrow> string" where
  "html_span sp =
     (case span_url sp of
        Some url \<Rightarrow>
          if url \<noteq> [] then
            ''<span class='' @ dquote @ ''fact-'' @ span_color sp @ dquote @ '' title='' @ dquote
              @ span_note sp @ dquote @ '' data-url='' @ dquote @ url @ dquote @ ''>''
              @ span_emoji sp @ '' '' @ span_text sp @ ''</span>''
          else
            ''<span class='' @ dquote @ ''fact-'' @ span_color sp @ dquote @ '' title='' @ dquote
              @ span_note sp @ dquote @ ''>'' @ span_emoji sp @ '' '' @ span_text sp @ ''</span>''
      | None \<Rightarrow>
          ''<span class='' @ dquote @ ''fact-'' @ span_color sp @ dquote @ '' title='' @ dquote
            @ span_note sp @ dquote @ ''>'' @ span_emoji sp @ '' '' @ span_text sp @ ''</span>'')"

fun html_loop :: "span list \<Rightarrow> string \<Rightarrow> py_error + string" where
  "html_loop [] formatted = Inr formatted"
| "html_loop (sp # sps) formatted =
     (case re_sub_first (span_text sp) (html_span sp) formatted of
        Inl e \<Rightarrow> Inl e
      | Inr formatted' \<Rightarrow> html_loop sps formatted')"

definition create_html_format :: "string \<Rightarrow> span list \<Rightarrow> py_error + string" where
  "create_html_format text fact_spans = html_loop (sorted_spans fact_spans) text"

text \<open>\<open>_create_markdown_format\<close>.\<close>

fun markdown_loop :: "span list \<Rightarrow> string \<Rightarrow> py_error + string" where
  "markdown_loop [] formatted = Inr formatted"
| "markdown_loop (sp # sps) formatted =
     (case re_sub_first (span_text sp) (span_emoji sp @ '' '' @ span_text sp) formatted of
        Inl e \<Rightarrow> Inl e
      | Inr formatted' \<Rightarrow> markdown_loop sps formatted')"

definition create_markdown_format :: "string \<Rightarrow> span list \<Rightarrow> py_error + string" where
  "create_markdown_format text fact_spans = markdown_loop (sorted_spans fact_spans) text"

text \<open>\<open>_create_fact_summary\<close> and \<open>format_response\<close>.\<close>

record summary_entry =
  se_entity :: string
  se_type :: string
  se_verified :: bool
  se_confidence :: string
  se_url :: "string option"
  se_note :: string

definition create_fact_summary :: "verified_fact list \<Rightarrow> contradiction list \<Rightarrow> summary_entry list" where
  "create_fact_summary verified_facts contradictions =
     map (\<lambda>f. \<lparr>se_entity = entity f, se_type = entity_type f, se_verified = verified f,
                se_confidence = confidence f, se_url = wikipedia_url f,
                se_note = verification_note f\<rparr>) verified_facts"

record formatted_response =
  original :: string
  html :: string
  markdown :: string
  fact_summary :: "summary_entry list"
  has_issues :: bool

definition format_response ::
  "string \<Rightarrow> verified_fact list \<Rightarrow> contradiction list \<Rightarrow> py_error + formatted_response" where
  "format_response original_text verified_facts contradictions =
     (let fact_spans = create_fact_spans verified_facts contradictions in
      case create_html_format original_text fact_spans of
        Inl e \<Rightarrow> Inl e
      | Inr html_formatted \<Rightarrow>
          (case create_markdown_format original_text fact_spans of
             Inl e \<Rightarrow> Inl e
           | Inr markdown_formatted \<Rightarrow>
               Inr \<lparr>original = original_text,
                    html = html_formatted,
                    markdown = markdown_formatted,
                    fact_summary = create_fact_summary verified_facts contradictions,
                    has_issues = (length contradictions > 0 \<or> list_ex (\<lambda>f. \<not> verified f) verified_facts)\<rparr>))"

section \<open>The examples of the specification\<close>

definition tokyo_14 :: fact where
  "tokyo_14 = \<lparr>entity = ''14 million people'', entity_type = ''POPULATION'',
                sentence = ''Tokyo has 14 million people''\<rparr>"

definition paris_2 :: fact where
  "paris_2 = \<lparr>entity = ''2 million people'', entity_type = ''POPULATION'',
               sentence = ''Paris has 2 million people''\<rparr>"

definition tokyo_38 :: fact where
  "tokyo_38 = \<lparr>entity = ''38 million people'', entity_type = ''POPULATION'',
                sentence = ''Tokyo has 38 million people''\<rparr>"

definition elephant_5000 :: fact where
  "elephant_5000 = \<lparr>entity = ''5000 kg'', entity_type = ''WEIGHT'',
                     sentence = ''The elephant weighs 5000 kg''\<rparr>"

definition elephant_9000 :: fact where
  "elephant_9000 = \<lparr>entity = ''9000 kg'', entity_type = ''WEIGHT'',
                     sentence = ''The elephant weighs 9000 kg''\<rparr>"

definition oven_200 :: fact where
  "oven_200 = \<lparr>entity = ''200 degrees'', entity_type = ''TEMPERATURE'',
                sentence = ''The oven reaches 200 degrees''\<rparr>"

definition oven_400 :: fact where
  "oven_400 = \<lparr>entity = ''400 degrees'', entity_type = ''TEMPERATURE'',
                sentence = ''The oven reaches 400 degrees''\<rparr>"

definition zero_goals :: fact where
  "zero_goals = \<lparr>entity = ''0'', entity_type = ''CARDINAL'',
                  sentence = ''The team scored 0 goals''\<rparr>"

text \<open>
  The score in the words of the specification, in the arithmetic of the code: the weight
  of a tier as a double, the sum of a list of doubles from left to right, and the
  average weight of the claims of a list, their sum divided by their number.
\<close>

definition double_weight :: "string \<Rightarrow> rat" where
  "double_weight tier =
     (if tier = ''high'' then 1 else if tier = ''medium'' then round_double (6 / 10)
      else if tier = ''low'' then round_double (2 / 10) else 0)"

definition double_sum :: "rat list \<Rightarrow> rat" where
  "double_sum ws = foldl (\<lambda>s w. round_double (s + w)) 0 ws"

definition double_average :: "verified_fact list \<Rightarrow> rat" where
  "double_average fs =
     round_double (double_sum (map (\<lambda>f. double_weight (confidence f)) fs) / of_nat (length fs))"

text \<open>
  Lists of verified claims given by their tiers: four claims whose weights add up to 2,
  and one claim of tier \<open>medium\<close> with seven of tier \<open>unknown\<close>.
\<close>

definition fact_of_tier :: "string \<Rightarrow> verified_fact" where
  "fact_of_tier tier =
     \<lparr>entity = ''Paris'', entity_type = ''GPE'', sentence = ''Paris is in France'',
      verified = (tier = ''high'' \<or> tier = ''medium''), confidence = tier,
      wikipedia_url = None, verification_note = '''', wikipedia_title = None\<rparr>"


definition facts_mostly_unknown :: "verified_fact list" where
  "facts_mostly_unknown =
     map fact_of_tier [''medium'', ''unknown'', ''unknown'', ''unknown'', ''unknown'',
                       ''unknown'', ''unknown'', ''unknown'']"

text \<open>
  Facts and reference sources for the verifier: a place, a date whose sentence names no
  subject, a source that fails, a source without pages and a source with one page.
\<close>

definition tokyo_gpe :: fact where
  "tokyo_gpe = \<lparr>entity = ''Tokyo'', entity_type = ''GPE'',
                 sentence = ''Tokyo has 14 million people''\<rparr>"

definition paris_gpe :: fact where
  "paris_gpe = \<lparr>entity = ''Paris'', entity_type = ''GPE'',
                 sentence = ''Paris has 2 million people''\<rparr>"

definition date_no_subject :: fact where
  "date_no_subject = \<lparr>entity = ''2020'', entity_type = ''DATE'',
                       sentence = ''it was built in 2020''\<rparr>"

definition wiki_down :: wiki where
  "wiki_down title = Inl ''timed out''"

definition wiki_no_page :: wiki where
  "wiki_no_page title =
     Inr \<lparr>page_exists = False, page_text = '''', page_summary = '''',
          page_fullurl = '''', page_title = title\<rparr>"

definition wiki_tokyo :: wiki where
  "wiki_tokyo title =
     Inr \<lparr>page_exists = True, page_text = ''Tokyo is the capital of Japan.'',
          page_summary = ''Tokyo is a city.'',
          page_fullurl = ''https://en.wikipedia.org/wiki/Tokyo'', page_title = ''Tokyo''\<rparr>"

text \<open>
  The example of the formatter: the text \<open>The Eiffel Tower is tall\<close> with two verified
  entities, \<open>Eiffel\<close> and \<open>Eiffel Tower\<close>; the opening tag of the span of an entity
  found in the reference source.
\<close>

definition eiffel_fact :: verified_fact where
  "eiffel_fact =
     \<lparr>entity = ''Eiffel'', entity_type = ''PERSON'', sentence = ''The Eiffel Tower is tall'',
      verified = True, confidence = ''high'',
      wikipedia_url = Some ''https://en.wikipedia.org/wiki/Gustave_Eiffel'',
      verification_note = ''Entity found in Wikipedia'',
      wikipedia_title = Some ''Gustave Eiffel''\<rparr>"

definition eiffel_tower_fact :: verified_fact where
  "eiffel_tower_fact =
     \<lparr>entity = ''Eiffel Tower'', entity_type = ''LOC'', sentence = ''The Eiffel Tower is tall'',
      verified = True, confidence = ''high'',
      wikipedia_url = Some ''https://en.wikipedia.org/wiki/Eiffel_Tower'',
      verification_note = ''Entity found in Wikipedia'',
      wikipedia_title = Some ''Eiffel Tower''\<rparr>"

definition found_tag :: "string \<Rightarrow> string" where
  "found_tag url =
     ''<span class='' @ dquote @ ''fact-green'' @ dquote @ '' title='' @ dquote
       @ ''Entity found in Wikipedia'' @ dquote @ '' data-url='' @ dquote @ url @ dquote @ ''>''"

section \<open>Evaluation of the string functions\<close>

lemmas char_class_defs =
  is_space_def is_digit_def is_upper_def is_lower_def is_word_def is_numch_def lower_char_def

lemmas number_defs =
  extract_number_def search_number_def py_float_def nat_of_digits_def digit_val_def lower_def

lemma card_common:
  "card (set xs \<inter> set ys) = length (remdups (filter (\<lambda>x. x \<in> set ys) xs))"
proof -
  have "set xs \<inter> set ys = set (remdups (filter (\<lambda>x. x \<in> set ys) xs))" by auto
  then show ?thesis by (metis distinct_card distinct_remdups)
qed

lemma str_nat_digit: "n < 10 \<Longrightarrow> str_nat n = [digit_char n]"
  by (simp add: str_nat.simps)

lemma str_nat_step: "10 \<le> n \<Longrightarrow> str_nat n = str_nat (n div 10) @ [digit_char (n mod 10)]"
  by (subst str_nat.simps) simp

lemma words_tokyo_14:
  "split (lower ''Tokyo has 14 million people'') = [''tokyo'', ''has'', ''14'', ''million'', ''people'']"
  by (simp add: split_def lower_def char_class_defs)

lemma words_paris_2:
  "split (lower ''Paris has 2 million people'') = [''paris'', ''has'', ''2'', ''million'', ''people'']"
  by (simp add: split_def lower_def char_class_defs)

lemma words_tokyo_38:
  "split (lower ''Tokyo has 38 million people'') = [''tokyo'', ''has'', ''38'', ''million'', ''people'']"
  by (simp add: split_def lower_def char_class_defs)

lemma words_elephant_5000:
  "split (lower ''The elephant weighs 5000 kg'') = [''the'', ''elephant'', ''weighs'', ''5000'', ''kg'']"
  by (simp add: split_def lower_def char_class_defs)

lemma words_elephant_9000:
  "split (lower ''The elephant weighs 9000 kg'') = [''the'', ''elephant'', ''weighs'', ''9000'', ''kg'']"
  by (simp add: split_def lower_def char_class_defs)

lemma words_oven_200:
  "split (lower ''The oven reaches 200 degrees'') = [''the'', ''oven'', ''reaches'', ''200'', ''degrees'']"
  by (simp add: split_def lower_def char_class_defs)

lemma words_oven_400:
  "split (lower ''The oven reaches 400 degrees'') = [''the'', ''oven'', ''reaches'', ''400'', ''degrees'']"
  by (simp add: split_def lower_def char_class_defs)

lemma words_zero_goals:
  "split (lower ''The team scored 0 goals'') = [''the'', ''team'', ''scored'', ''0'', ''goals'']"
  by (simp add: split_def lower_def char_class_defs)

lemma number_14: "extract_number ''14 million people'' = Some 14000000"
  by (simp add: number_defs char_class_defs)

lemma number_2: "extract_number ''2 million people'' = Some 2000000"
  by (simp add: number_defs char_class_defs)

lemma number_38: "extract_number ''38 million people'' = Some 38000000"
  by (simp add: number_defs char_class_defs)

lemma number_5000: "extract_number ''5000 kg'' = Some 5000"
  by (simp add: number_defs char_class_defs)

lemma number_9000: "extract_number ''9000 kg'' = Some 9000"
  by (simp add: number_defs char_class_defs)

lemma number_200: "extract_number ''200 degrees'' = Some 200"
  by (simp add: number_defs char_class_defs)

lemma number_400: "extract_number ''400 degrees'' = Some 400"
  by (simp add: number_defs char_class_defs)

lemma number_0: "extract_number ''0'' = Some 0"
  by (simp add: number_defs char_class_defs)

lemma same_subject_paris_tokyo:
  "same_subject ''Paris has 2 million people'' ''Tokyo has 14 million people''"
  by (simp add: same_subject_def words_tokyo_14 words_paris_2 card_common)

lemma same_subject_tokyo_tokyo:
  "same_subject ''Tokyo has 38 million people'' ''Tokyo has 14 million people''"
  by (simp add: same_subject_def words_tokyo_14 words_tokyo_38 card_common)

lemma same_subject_elephant:
  "same_subject ''The elephant weighs 9000 kg'' ''The elephant weighs 5000 kg''"
  by (simp add: same_subject_def words_elephant_5000 words_elephant_9000 card_common)

lemma same_subject_oven:
  "same_subject ''The oven reaches 400 degrees'' ''The oven reaches 200 degrees''"
  by (simp add: same_subject_def words_oven_200 words_oven_400 card_common)

lemma same_subject_zero_goals:
  "same_subject ''The team scored 0 goals'' ''The team scored 0 goals''"
  by (simp add: same_subject_def words_zero_goals card_common)

lemma round_6000_7: "round_half_even (6000 / 7) = 857"
proof -
  have "\<lfloor>6000 / 7 :: rat\<rfloor> = 857" by (rule floor_unique) simp_all
  then show ?thesis by (simp add: round_half_even_def Let_def)
qed

lemma round_12000_19: "round_half_even (12000 / 19) = 632"
proof -
  have "\<lfloor>12000 / 19 :: rat\<rfloor> = 631" by (rule floor_unique) simp_all
  then show ?thesis by (simp add: round_half_even_def Let_def)
qed

lemma round_4000_9: "round_half_even (4000 / 9) = 444"
proof -
  have "\<lfloor>4000 / 9 :: rat\<rfloor> = 444" by (rule floor_unique) simp_all
  then show ?thesis by (simp add: round_half_even_def Let_def)
qed

lemma round_500: "round_half_even 500 = 500"
  by (simp add: round_half_even_def Let_def)

lemma format_600_7: "format_1f (600 / 7) = ''85.7''"
  by (simp add: format_1f_def round_6000_7 str_nat_digit str_nat_step digit_char_def)

lemma format_1200_19: "format_1f (1200 / 19) = ''63.2''"
  by (simp add: format_1f_def round_12000_19 str_nat_digit str_nat_step digit_char_def)

lemma format_400_9: "format_1f (400 / 9) = ''44.4''"
  by (simp add: format_1f_def round_4000_9 str_nat_digit str_nat_step digit_char_def)

lemma format_50: "format_1f 50 = ''50.0''"
  by (simp add: format_1f_def round_500 str_nat_digit str_nat_step digit_char_def)

section \<open>The numeric rule of the detector\<close>

lemma check_paris_tokyo:
  "check_fact_pair paris_2 tokyo_14 =
     Inr (Some \<lparr>ctype = ''numeric_contradiction'', severity = ''high'',
                previous_claim = ''Tokyo has 14 million people'',
                current_claim = ''Paris has 2 million people'',
                previous_value = Some ''14 million people'',
                current_value = Some ''2 million people'',
                difference = Some ''85.7% difference'',
                message = ''Contradiction detected: Different values for the same claim''\<rparr>)"
  by (simp add: check_fact_pair_def check_numeric_contradiction_def paris_2_def tokyo_14_def
      number_14 number_2 same_subject_paris_tokyo format_600_7)

lemma check_tokyo_38:
  "check_fact_pair tokyo_38 tokyo_14 =
     Inr (Some \<lparr>ctype = ''numeric_contradiction'', severity = ''high'',
                previous_claim = ''Tokyo has 14 million people'',
                current_claim = ''Tokyo has 38 million people'',
                previous_value = Some ''14 million people'',
                current_value = Some ''38 million people'',
                difference = Some ''63.2% difference'',
                message = ''Contradiction detected: Different values for the same claim''\<rparr>)"
  by (simp add: check_fact_pair_def check_numeric_contradiction_def tokyo_38_def tokyo_14_def
      number_14 number_38 same_subject_tokyo_tokyo format_1200_19)

lemma detect_single:
  "fst (detect_contradictions (add_facts Map.empty sid [old]) sid [new]) =
     (case check_fact_pair new old of
        Inl e \<Rightarrow> Inl e
      | Inr None \<Rightarrow> Inr []
      | Inr (Some c) \<Rightarrow> Inr [c])"
  by (simp add: detect_contradictions_def add_facts_def split: sum.splits option.splits)

text \<open>
  The rule for a pair whose larger number is not zero, in the exact arithmetic of the
  model: the relative difference in percent, the thresholds at 20 and 50, and the
  description of the difference.
\<close>

lemma numeric_rule_nonzero:
  assumes "extract_number (entity fact1) = Some a"
    and "extract_number (entity fact2) = Some b"
    and "same_subject (sentence fact1) (sentence fact2)"
    and "max a b \<noteq> 0"
  shows "check_numeric_contradiction fact1 fact2 =
     Inr (if \<bar>a - b\<bar> / max a b * 100 > 20
          then Some \<lparr>ctype = ''numeric_contradiction'',
                      severity = (if \<bar>a - b\<bar> / max a b * 100 > 50 then ''high'' else ''medium''),
                      previous_claim = sentence fact2,
                      current_claim = sentence fact1,
                      previous_value = Some (entity fact2),
                      current_value = Some (entity fact1),
                      difference = Some (format_1f (\<bar>a - b\<bar> / max a b * 100) @ ''% difference''),
                      message = ''Contradiction detected: Different values for the same claim''\<rparr>
          else None)"
  using assms by (simp add: check_numeric_contradiction_def Let_def)

lemma detect_tokyo_38:
  "fst (detect_contradictions (add_facts Map.empty sid [tokyo_14]) sid [tokyo_38]) =
     Inr [\<lparr>ctype = ''numeric_contradiction'', severity = ''high'',
            previous_claim = ''Tokyo has 14 million people'',
            current_claim = ''Tokyo has 38 million people'',
            previous_value = Some ''14 million people'',
            current_value = Some ''38 million people'',
            difference = Some ''63.2% difference'',
            message = ''Contradiction detected: Different values for the same claim''\<rparr>]"
  by (simp add: detect_single check_tokyo_38)

section \<open>Claims about the contradiction detector\<close>

text \<open>
  Claim C1, as the specification states it: with the claim \<open>14 million people\<close> of the
  sentence \<open>Tokyo has 14 million people\<close> in the history of a session,
  \<open>detect_contradictions\<close> returns no contradiction for the claim \<open>2 million people\<close> of
  the sentence \<open>Paris has 2 million people\<close>. The code returns one: the statement is
  false for the session \<open>session\<close>.
\<close>

theorem C1_paris_tokyo_not_empty:
  "fst (detect_contradictions (add_facts Map.empty ''session'' [tokyo_14]) ''session'' [paris_2])
     \<noteq> Inr []"
  by (simp add: detect_single check_paris_tokyo)

text \<open>
  Claim C1, amended: the first five lower-cased words of the two sentences share three
  words (\<open>has\<close>, \<open>million\<close>, \<open>people\<close>), so the subject-overlap heuristic, which requires at
  least two, passes, and \<open>detect_contradictions\<close> returns exactly one contradiction, of
  kind numeric and severity high, with the difference \<open>85.7%\<close>, in every session whose
  history is the first claim.
\<close>

theorem C1_paris_tokyo_detected:
  "set (take 5 (split (lower (sentence paris_2)))) \<inter> set (take 5 (split (lower (sentence tokyo_14))))
     = {''has'', ''million'', ''people''}
   \<and> same_subject (sentence paris_2) (sentence tokyo_14)
   \<and> fst (detect_contradictions (add_facts Map.empty sid [tokyo_14]) sid [paris_2]) =
       Inr [\<lparr>ctype = ''numeric_contradiction'', severity = ''high'',
              previous_claim = ''Tokyo has 14 million people'',
              current_claim = ''Paris has 2 million people'',
              previous_value = Some ''14 million people'',
              current_value = Some ''2 million people'',
              difference = Some ''85.7% difference'',
              message = ''Contradiction detected: Different values for the same claim''\<rparr>]"
proof (intro conjI)
  show "set (take 5 (split (lower (sentence paris_2)))) \<inter> set (take 5 (split (lower (sentence tokyo_14))))
     = {''has'', ''million'', ''people''}"
    by (auto simp: paris_2_def tokyo_14_def words_paris_2 words_tokyo_14)
  show "same_subject (sentence paris_2) (sentence tokyo_14)"
    by (simp add: paris_2_def tokyo_14_def same_subject_paris_tokyo)
  show "fst (detect_contradictions (add_facts Map.empty sid [tokyo_14]) sid [paris_2]) =
       Inr [\<lparr>ctype = ''numeric_contradiction'', severity = ''high'',
              previous_claim = ''Tokyo has 14 million people'',
              current_claim = ''Paris has 2 million people'',
              previous_value = Some ''14 million people'',
              current_value = Some ''2 million people'',
              difference = Some ''85.7% difference'',
              message = ''Contradiction detected: Different values for the same claim''\<rparr>]"
    by (simp add: detect_single check_paris_tokyo)
qed

theorem C1_paris_tokyo_detected_witness:
  "same_subject (sentence paris_2) (sentence tokyo_14)
   \<and> (\<exists>c. fst (detect_contradictions (add_facts Map.empty ''session'' [tokyo_14]) ''session'' [paris_2])
            = Inr [c]
          \<and> ctype c = ''numeric_contradiction'' \<and> severity c = ''high'')"
  using C1_paris_tokyo_detected [of "''session''"] by simp

text \<open>
  Claim C2 says that the numeric rule is applied to pairs of type \<open>WEIGHT\<close> and of type
  \<open>TEMPERATURE\<close>. The list of numeric types of \<open>_check_fact_pair\<close> holds neither (the
  lists of the verifier hold both): for two claims on the weight of the same elephant and
  two on the temperature of the same oven, the numeric rule finds a contradiction, and
  \<open>_check_fact_pair\<close> returns none.
\<close>

theorem C2_weight_temperature_skipped:
  "check_fact_pair elephant_9000 elephant_5000 = Inr None
   \<and> check_numeric_contradiction elephant_9000 elephant_5000 =
       Inr (Some \<lparr>ctype = ''numeric_contradiction'', severity = ''medium'',
                  previous_claim = ''The elephant weighs 5000 kg'',
                  current_claim = ''The elephant weighs 9000 kg'',
                  previous_value = Some ''5000 kg'',
                  current_value = Some ''9000 kg'',
                  difference = Some ''44.4% difference'',
                  message = ''Contradiction detected: Different values for the same claim''\<rparr>)
   \<and> check_fact_pair oven_400 oven_200 = Inr None
   \<and> check_numeric_contradiction oven_400 oven_200 =
       Inr (Some \<lparr>ctype = ''numeric_contradiction'', severity = ''medium'',
                  previous_claim = ''The oven reaches 200 degrees'',
                  current_claim = ''The oven reaches 400 degrees'',
                  previous_value = Some ''200 degrees'',
                  current_value = Some ''400 degrees'',
                  difference = Some ''50.0% difference'',
                  message = ''Contradiction detected: Different values for the same claim''\<rparr>)"
proof (intro conjI)
  show "check_fact_pair elephant_9000 elephant_5000 = Inr None"
    by (simp add: check_fact_pair_def elephant_9000_def elephant_5000_def)
  show "check_fact_pair oven_400 oven_200 = Inr None"
    by (simp add: check_fact_pair_def oven_400_def oven_200_def)
  show "check_numeric_contradiction elephant_9000 elephant_5000 =
       Inr (Some \<lparr>ctype = ''numeric_contradiction'', severity = ''medium'',
                  previous_claim = ''The elephant weighs 5000 kg'',
                  current_claim = ''The elephant weighs 9000 kg'',
                  previous_value = Some ''5000 kg'',
                  current_value = Some ''9000 kg'',
                  difference = Some ''44.4% difference'',
                  message = ''Contradiction detected: Different values for the same claim''\<rparr>)"
    by (simp add: check_numeric_contradiction_def elephant_9000_def elephant_5000_def
        number_5000 number_9000 same_subject_elephant format_400_9)
  show "check_numeric_contradiction oven_400 oven_200 =
       Inr (Some \<lparr>ctype = ''numeric_contradiction'', severity = ''medium'',
                  previous_claim = ''The oven reaches 200 degrees'',
                  current_claim = ''The oven reaches 400 degrees'',
                  previous_value = Some ''200 degrees'',
                  current_value = Some ''400 degrees'',
                  difference = Some ''50.0% difference'',
                  message = ''Contradiction detected: Different values for the same claim''\<rparr>)"
    by (simp add: check_numeric_contradiction_def oven_400_def oven_200_def
        number_200 number_400 same_subject_oven format_50)
qed

text \<open>
  Claim C6 says that every pair of numeric claims of one type whose entities parse to
  numbers and whose sentences pass the heuristic is flagged exactly when the relative
  difference exceeds 20%. In the exact arithmetic of the model that is the rule when the
  larger number is not zero (\<open>numeric_rule_nonzero\<close>), and the example of the claim gives
  one contradiction of severity high (\<open>detect_tokyo_38\<close>). When
  both numbers are zero the quotient of the source divides by zero: a claim \<open>0\<close> of the
  sentence \<open>The team scored 0 goals\<close>, met again in the same session, parses to zero,
  passes the heuristic, and \<open>detect_contradictions\<close> raises \<open>ZeroDivisionError\<close>.
\<close>

theorem C6_zero_pair_raises:
  "extract_number (entity zero_goals) = Some 0
   \<and> same_subject (sentence zero_goals) (sentence zero_goals)
   \<and> check_numeric_contradiction zero_goals zero_goals = Inl ZeroDivisionError
   \<and> fst (detect_contradictions (add_facts Map.empty ''session'' [zero_goals]) ''session'' [zero_goals])
       = Inl ZeroDivisionError"
proof -
  have c: "check_numeric_contradiction zero_goals zero_goals = Inl ZeroDivisionError"
    by (simp add: check_numeric_contradiction_def zero_goals_def number_0 same_subject_zero_goals)
  then have "check_fact_pair zero_goals zero_goals = Inl ZeroDivisionError"
    by (simp add: check_fact_pair_def zero_goals_def)
  then show ?thesis
    using c by (simp add: detect_single) (simp add: zero_goals_def number_0 same_subject_zero_goals)
qed

text \<open>
  Claim C7: for every state of the detector, every session id and every list of claims,
  \<open>detect_contradictions\<close> after \<open>clear_session\<close> of the same id returns the empty list,
  whatever the history of the session held; the session is absent from the state, and
  the result is that of a detector that never saw the session.
\<close>

theorem C7_clear_then_detect:
  "fst (detect_contradictions (clear_session st sid) sid new_facts) = Inr []
   \<and> clear_session st sid sid = None
   \<and> fst (detect_contradictions (clear_session st sid) sid new_facts)
       = fst (detect_contradictions Map.empty sid new_facts)"
  by (auto simp: detect_contradictions_def clear_session_def domIff)

theorem C7_clear_then_detect_witness:
  "fst (detect_contradictions (add_facts Map.empty ''session'' [tokyo_14]) ''session'' [tokyo_38])
     \<noteq> Inr []
   \<and> fst (detect_contradictions
            (clear_session (add_facts Map.empty ''session'' [tokyo_14]) ''session'')
            ''session'' [tokyo_38]) = Inr []"
  using C7_clear_then_detect [of "add_facts Map.empty ''session'' [tokyo_14]" "''session''" "[tokyo_38]"]
  by (simp add: detect_tokyo_38)

text \<open>
  Claim C10: \<open>detect_contradictions\<close> leaves the state of the detector as it was, for
  every state, session id and list of new claims, whether it returns or raises; so does
  \<open>get_session_summary\<close>. \<open>add_facts\<close> with a claim to add and \<open>clear_session\<close> of a session
  of the state change the state.
\<close>

theorem C10_detect_read_only:
  "snd (detect_contradictions st sid new_facts) = st
   \<and> snd (get_session_summary st sid) = st
   \<and> add_facts st sid (f # fs) \<noteq> st
   \<and> (sid \<in> dom st \<longrightarrow> clear_session st sid \<noteq> st)"
proof (intro conjI impI)
  show "snd (detect_contradictions st sid new_facts) = st"
    by (simp add: detect_contradictions_def split: option.splits)
  show "snd (get_session_summary st sid) = st"
    by (simp add: get_session_summary_def split: option.splits)
  show "add_facts st sid (f # fs) \<noteq> st"
  proof
    assume eq: "add_facts st sid (f # fs) = st"
    have "add_facts st sid (f # fs) sid = Some ((case st sid of None \<Rightarrow> [] | Some p \<Rightarrow> p) @ f # fs)"
      by (auto simp: add_facts_def split: option.splits)
    with eq show False by (cases "st sid") auto
  qed
next
  assume "sid \<in> dom st"
  then have "clear_session st sid sid \<noteq> st sid"
    by (auto simp: clear_session_def)
  then show "clear_session st sid \<noteq> st" by auto
qed

theorem C10_detect_read_only_witness:
  "snd (detect_contradictions (add_facts Map.empty ''session'' [tokyo_14]) ''session'' [tokyo_38])
     = add_facts Map.empty ''session'' [tokyo_14]
   \<and> ''session'' \<in> dom (add_facts Map.empty ''session'' [tokyo_14])
   \<and> clear_session (add_facts Map.empty ''session'' [tokyo_14]) ''session''
       \<noteq> add_facts Map.empty ''session'' [tokyo_14]"
proof -
  have d: "''session'' \<in> dom (add_facts Map.empty ''session'' [tokyo_14])"
    by (simp add: add_facts_def)
  show ?thesis
    using d C10_detect_read_only [of "add_facts Map.empty ''session'' [tokyo_14]" "''session''" "[tokyo_38]"]
    by simp
qed

section \<open>The arithmetic of doubles\<close>

lemma log2_nat_bounds:
  "0 < n \<Longrightarrow> 2 ^ log2_nat n \<le> n \<and> n < 2 ^ Suc (log2_nat n)"
proof (induction n rule: log2_nat.induct)
  case (1 n)
  show ?case
  proof (cases "n < 2")
    case True
    with "1.prems" have "n = 1" by simp
    then show ?thesis by (simp add: log2_nat.simps)
  next
    case False
    then have "0 < n div 2" by simp
    with "1.IH" False have ih: "2 ^ log2_nat (n div 2) \<le> n div 2"
      "n div 2 < 2 ^ Suc (log2_nat (n div 2))" by simp_all
    have l: "log2_nat n = Suc (log2_nat (n div 2))"
      using False by (subst log2_nat.simps) simp
    have "2 * 2 ^ log2_nat (n div 2) \<le> 2 * (n div 2)" using ih(1) by simp
    also have "\<dots> \<le> n" by simp
    finally have a: "2 ^ log2_nat n \<le> n" by (simp add: l)
    have "n < 2 * (n div 2) + 2" by presburger
    also have "\<dots> \<le> 2 * 2 ^ Suc (log2_nat (n div 2))" using ih(2) by simp
    finally have b: "n < 2 ^ Suc (log2_nat n)" by (simp add: l)
    from a b show ?thesis by simp
  qed
qed

lemma pow2_powi: "pow2 e = 2 powi e"
proof (cases "0 \<le> e")
  case True
  then show ?thesis by (simp add: pow2_def power_int_def)
next
  case False
  have "inverse (2::rat) ^ nat (- e) = 1 / 2 ^ nat (- e)"
    by (simp only: inverse_eq_divide power_one_over)
  with False show ?thesis by (simp only: pow2_def power_int_def if_False)
qed

lemma pow2_pos: "0 < pow2 e"
  by (simp add: pow2_powi)

lemma pow2_add: "pow2 (a + b) = pow2 a * pow2 b"
  by (simp add: pow2_powi power_int_add)

lemma pow2_nat: "pow2 (int k) = 2 ^ k"
  by (simp add: pow2_def)

lemma pow2_neg_nat: "pow2 (- int k) = 1 / 2 ^ k"
proof (cases k)
  case 0
  then show ?thesis by (simp add: pow2_def)
next
  case (Suc j)
  then have "\<not> 0 \<le> - int k" by simp
  moreover have "nat (- (- int k)) = k" by simp
  ultimately show ?thesis by (simp only: pow2_def if_False)
qed

lemma pow2_mono: "a \<le> b \<Longrightarrow> pow2 a \<le> pow2 b"
  by (simp add: pow2_powi power_int_increasing)

lemma pow2_less_imp: "pow2 a < pow2 b \<Longrightarrow> a < b"
  using pow2_mono [of b a] by (cases "a < b") auto

lemma pow_le_of_nat: "2 ^ k \<le> (n::nat) \<Longrightarrow> (2::rat) ^ k \<le> of_nat n"
proof -
  assume "2 ^ k \<le> n"
  then have "(of_nat (2 ^ k) :: rat) \<le> of_nat n" by (simp only: of_nat_le_iff)
  then show ?thesis by simp
qed

lemma of_nat_le_pow: "(n::nat) \<le> 2 ^ k \<Longrightarrow> (of_nat n :: rat) \<le> 2 ^ k"
proof -
  assume "n \<le> 2 ^ k"
  then have "(of_nat n :: rat) \<le> of_nat (2 ^ k)" by (simp only: of_nat_le_iff)
  then show ?thesis by simp
qed

lemma binade_bounds:
  assumes "0 < x"
  shows "pow2 (binade x) \<le> x" and "x < pow2 (binade x + 1)"
proof -
  have "pow2 (binade x) \<le> x \<and> x < pow2 (binade x + 1)"
  proof (cases "1 \<le> x")
    case True
    let ?n = "nat \<lfloor>x\<rfloor>"
    let ?l = "log2_nat ?n"
    have f1: "1 \<le> \<lfloor>x\<rfloor>" using True by (simp only: one_le_floor)
    then have "0 < \<lfloor>x\<rfloor>" by linarith
    then have n: "0 < ?n" by (simp only: zero_less_nat_eq)
    from f1 have "0 \<le> \<lfloor>x\<rfloor>" by linarith
    then have fl: "of_nat ?n = rat_of_int \<lfloor>x\<rfloor>" by (simp only: of_nat_nat)
    have b: "2 ^ ?l \<le> ?n" "?n < 2 ^ Suc ?l"
      using log2_nat_bounds [OF n] by blast+
    have "(2::rat) ^ ?l \<le> of_nat ?n" using b(1) by (rule pow_le_of_nat)
    then have "(2::rat) ^ ?l \<le> x" unfolding fl by linarith
    moreover have "pow2 (binade x) = 2 ^ ?l"
    proof -
      have "binade x = int ?l" using True by (simp only: binade_def if_True)
      then show ?thesis by (simp only: pow2_nat)
    qed
    ultimately have lo: "pow2 (binade x) \<le> x" by simp
    have "Suc ?n \<le> 2 ^ Suc ?l" using b(2) by linarith
    then have "(of_nat (Suc ?n) :: rat) \<le> 2 ^ Suc ?l" by (rule of_nat_le_pow)
    then have "1 + (of_nat ?n :: rat) \<le> 2 ^ Suc ?l" by (simp only: of_nat_Suc)
    then have "x < 2 ^ Suc ?l" unfolding fl by linarith
    moreover have "pow2 (binade x + 1) = 2 ^ Suc ?l"
    proof -
      have "binade x = int ?l" using True by (simp only: binade_def if_True)
      then have "binade x + 1 = int (Suc ?l)" by simp
      then show ?thesis by (simp only: pow2_nat)
    qed
    ultimately have "x < pow2 (binade x + 1)" by simp
    with lo show ?thesis by blast
  next
    case False
    let ?y = "1 / x"
    let ?c = "nat (\<lceil>?y\<rceil> - 1)"
    let ?l = "log2_nat ?c"
    have x1: "x < 1" using False by simp
    have y1: "1 < ?y" using assms x1 by simp
    from ceiling_correct [of ?y]
    have ce1: "rat_of_int \<lceil>?y\<rceil> - 1 < ?y" and ce2: "?y \<le> rat_of_int \<lceil>?y\<rceil>"
      by blast+
    have "(1::rat) < of_int \<lceil>?y\<rceil>" using y1 ce2 by linarith
    then have "1 < \<lceil>?y\<rceil>" by (simp only: of_int_1_less_iff)
    then have c0: "0 < \<lceil>?y\<rceil> - 1" by linarith
    then have c: "0 < ?c" by (simp only: zero_less_nat_eq)
    from c0 have "0 \<le> \<lceil>?y\<rceil> - 1" by linarith
    then have cy: "of_nat ?c = rat_of_int (\<lceil>?y\<rceil> - 1)" by (simp only: of_nat_nat)
    have cl: "of_nat ?c < ?y" and cu: "?y \<le> of_nat ?c + 1"
      unfolding cy of_int_diff of_int_1 using ce1 ce2 by linarith+
    have b: "2 ^ ?l \<le> ?c" "?c < 2 ^ Suc ?l"
      using log2_nat_bounds [OF c] by blast+
    have be: "binade x = - int ?l - 1" using False by (simp only: binade_def if_False)
    have p: "(0::rat) < 2 ^ ?l" and p': "(0::rat) < 2 ^ Suc ?l" by simp_all
    have "(2::rat) ^ ?l \<le> of_nat ?c" using b(1) by (rule pow_le_of_nat)
    then have "(2::rat) ^ ?l < 1 / x" using cl by linarith
    then have "2 ^ ?l * x < 1" using assms by (simp only: pos_less_divide_eq)
    then have "x * 2 ^ ?l < 1" by (simp only: mult.commute)
    then have "x < 1 / 2 ^ ?l" using p by (simp only: pos_less_divide_eq)
    moreover have "pow2 (binade x + 1) = 1 / 2 ^ ?l"
    proof -
      have "binade x + 1 = - int ?l" using be by simp
      then show ?thesis by (simp only: pow2_neg_nat)
    qed
    ultimately have hi: "x < pow2 (binade x + 1)" by simp
    have "Suc ?c \<le> 2 ^ Suc ?l" using b(2) by linarith
    then have "(of_nat (Suc ?c) :: rat) \<le> 2 ^ Suc ?l" by (rule of_nat_le_pow)
    then have "1 + (of_nat ?c :: rat) \<le> 2 ^ Suc ?l" by (simp only: of_nat_Suc)
    then have "1 / x \<le> 2 ^ Suc ?l" using cu by linarith
    then have "1 \<le> 2 ^ Suc ?l * x" using assms by (simp only: pos_divide_le_eq)
    then have "1 \<le> x * 2 ^ Suc ?l" by (simp only: mult.commute)
    then have "1 / 2 ^ Suc ?l \<le> x" using p' by (simp only: pos_divide_le_eq)
    moreover have "pow2 (binade x) = 1 / 2 ^ Suc ?l"
    proof -
      have "binade x = - int (Suc ?l)" using be by simp
      then show ?thesis by (simp only: pow2_neg_nat)
    qed
    ultimately have "pow2 (binade x) \<le> x" by simp
    with hi show ?thesis by blast
  qed
  then show "pow2 (binade x) \<le> x" and "x < pow2 (binade x + 1)" by blast+
qed


lemma round_half_even_ge_floor: "\<lfloor>x\<rfloor> \<le> round_half_even x"
  by (simp add: round_half_even_def Let_def)

lemma round_half_even_le_floor: "round_half_even x \<le> \<lfloor>x\<rfloor> + 1"
  by (simp add: round_half_even_def Let_def)

lemma round_half_even_of_int: "round_half_even (of_int k) = k"
  by (simp add: round_half_even_def Let_def)

lemma round_half_even_le_int:
  assumes "x \<le> of_int k"
  shows "round_half_even x \<le> k"
proof (cases "\<lfloor>x\<rfloor> = k")
  case True
  then have "of_int k \<le> x" using of_int_floor_le [of x] by simp
  with assms have "x = of_int k" by simp
  then show ?thesis by (simp only: round_half_even_of_int)
next
  case False
  have "\<lfloor>x\<rfloor> \<le> k" using assms by (simp only: floor_le_iff)
  with False have "\<lfloor>x\<rfloor> + 1 \<le> k" by linarith
  then show ?thesis using round_half_even_le_floor [of x] by linarith
qed

lemma round_half_even_nonneg: "0 \<le> x \<Longrightarrow> 0 \<le> round_half_even x"
proof -
  assume "0 \<le> x"
  then have "0 \<le> \<lfloor>x\<rfloor>" by simp
  then show ?thesis using round_half_even_ge_floor [of x] by linarith
qed

lemma round_double_nonneg: "0 \<le> x \<Longrightarrow> 0 \<le> round_double x"
proof -
  assume x: "0 \<le> x"
  let ?u = "pow2 (max (binade \<bar>x\<bar>) (- 1022) - 52)"
  have u: "0 < ?u" by (rule pow2_pos)
  then have "0 \<le> x / ?u" using x by simp
  then have "0 \<le> round_half_even (x / ?u)" by (rule round_half_even_nonneg)
  then have "(0::rat) \<le> of_int (round_half_even (x / ?u)) * ?u" using u by simp
  then show ?thesis by (simp add: round_double_def Let_def)
qed

text \<open>Rounding does not pass a natural number below \<open>2 ^ 53\<close>.\<close>

lemma round_double_le_nat:
  assumes "0 \<le> x" and "x \<le> of_nat m" and "m < 2 ^ 53"
  shows "round_double x \<le> of_nat m"
proof (cases "x = 0")
  case True
  then show ?thesis by (simp add: round_double_def)
next
  case False
  with assms have x: "0 < x" by simp
  let ?E = "max (binade x) (- 1022)"
  let ?u = "pow2 (?E - 52)"
  have u: "0 < ?u" by (rule pow2_pos)
  have "(of_nat m :: rat) < of_nat (2 ^ 53)" using assms(3) by (simp only: of_nat_less_iff)
  then have "(of_nat m :: rat) < 2 ^ 53" by simp
  then have "pow2 (binade x) < pow2 53"
    using binade_bounds(1) [OF x] assms(2) by (simp add: pow2_def)
  then have "binade x < 53" by (rule pow2_less_imp)
  then have E: "?E \<le> 52" by simp
  define j where "j = nat (52 - ?E)"
  have j: "int j = 52 - ?E" using E by (simp add: j_def)
  have "pow2 (int j) * ?u = pow2 (int j + (?E - 52))" by (simp only: pow2_add)
  also have "int j + (?E - 52) = 0" using j by simp
  finally have ju: "2 ^ j * ?u = 1" by (simp add: pow2_nat pow2_def)
  define k where "k = int m * 2 ^ j"
  have ku: "of_int k * ?u = of_nat m"
  proof -
    have "(of_int k :: rat) * ?u = of_nat m * (2 ^ j * ?u)" by (simp add: k_def)
    then show ?thesis by (simp only: ju mult_1_right)
  qed
  have "x / ?u \<le> of_nat m / ?u" using assms(2) u by (simp add: divide_right_mono)
  also have "of_nat m / ?u = of_int k" using ku u by (simp add: field_simps)
  finally have "round_half_even (x / ?u) \<le> k" by (rule round_half_even_le_int)
  then have "(of_int (round_half_even (x / ?u)) :: rat) \<le> of_int k" by simp
  then have "of_int (round_half_even (x / ?u)) * ?u \<le> of_int k * ?u"
    using u by (simp only: mult_le_cancel_right_pos)
  then have "of_int (round_half_even (x / ?u)) * ?u \<le> of_nat m" by (simp only: ku)
  moreover have "\<bar>x\<bar> = x" using x by simp
  ultimately show ?thesis using False by (simp add: round_double_def Let_def)
qed

text \<open>A positive multiple of the unit of its binade is a double.\<close>

lemma round_double_exact:
  assumes "0 < x" and "x = of_int k * pow2 (max (binade x) (- 1022) - 52)"
  shows "round_double x = x"
proof -
  let ?u = "pow2 (max (binade x) (- 1022) - 52)"
  have u: "0 < ?u" by (rule pow2_pos)
  have "x / ?u = of_int k" using assms(2) u by (simp add: field_simps)
  then have "round_half_even (x / ?u) = k" by (simp only: round_half_even_of_int)
  moreover have "\<bar>x\<bar> = x" using assms(1) by simp
  ultimately have "round_double x = of_int k * ?u"
    using assms(1) by (simp add: round_double_def Let_def)
  with assms(2) show ?thesis by simp
qed


lemma round_double_nat:
  assumes "n < 2 ^ 53"
  shows "round_double (of_nat n) = of_nat n"
proof (cases "n = 0")
  case True
  then show ?thesis by (simp add: round_double_def)
next
  case False
  let ?x = "of_nat n :: rat"
  have x: "0 < ?x" using False by simp
  let ?e = "binade ?x"
  have "(of_nat n :: rat) < of_nat (2 ^ 53)" using assms by (simp only: of_nat_less_iff)
  then have "?x < 2 ^ 53" by simp
  then have "pow2 ?e < pow2 53" using binade_bounds(1) [OF x] by (simp add: pow2_def)
  then have e1: "?e < 53" by (rule pow2_less_imp)
  have "(1::rat) \<le> of_nat n" using False by simp
  then have "pow2 0 \<le> ?x" by (simp add: pow2_def)
  then have "pow2 0 < pow2 (?e + 1)" using binade_bounds(2) [OF x] by linarith
  then have e2: "0 < ?e + 1" by (rule pow2_less_imp)
  have E: "max ?e (- 1022) = ?e" using e2 by simp
  define j where "j = nat (52 - ?e)"
  have j: "int j = 52 - ?e" using e1 by (simp add: j_def)
  have "pow2 (int j) * pow2 (?e - 52) = pow2 (int j + (?e - 52))" by (simp only: pow2_add)
  also have "int j + (?e - 52) = 0" using j by simp
  finally have ju: "2 ^ j * pow2 (?e - 52) = 1" by (simp add: pow2_nat pow2_def)
  have "?x = of_int (int n * 2 ^ j) * pow2 (?e - 52)"
  proof -
    have "of_int (int n * 2 ^ j) * pow2 (?e - 52) = (of_nat n :: rat) * (2 ^ j * pow2 (?e - 52))"
      by simp
    then show ?thesis by (simp only: ju)
  qed
  then have "?x = of_int (int n * 2 ^ j) * pow2 (max ?e (- 1022) - 52)" by (simp only: E)
  with x show ?thesis by (rule round_double_exact)
qed

section \<open>Claims about the confidence scorer\<close>

lemma add_points_foldl:
  "add_points fs total_points
     = foldl (\<lambda>s w. round_double (s + w)) total_points
         (map (\<lambda>f. double_weight (confidence f)) fs)"
  by (induction fs arbitrary: total_points) (simp_all add: double_weight_def)

lemma calculate_confidence_score_average:
  assumes "fs \<noteq> []" and "length fs < 2 ^ 53"
  shows "calculate_confidence_score (calculate_stats fs) fs = double_average fs"
  using assms
  by (simp add: calculate_confidence_score_def calculate_stats_def add_points_foldl
      double_average_def double_sum_def round_double_nat)

lemma double_weight_bounds: "0 \<le> double_weight t \<and> double_weight t \<le> 1"
proof -
  have a: "round_double (6 / 10) \<le> of_nat 1" by (rule round_double_le_nat) simp_all
  have b: "round_double (2 / 10) \<le> of_nat 1" by (rule round_double_le_nat) simp_all
  have c: "0 \<le> round_double (6 / 10)" by (rule round_double_nonneg) simp
  have d: "0 \<le> round_double (2 / 10)" by (rule round_double_nonneg) simp
  from a b c d show ?thesis by (simp add: double_weight_def)
qed

lemma double_fold_bounds:
  assumes "\<forall>w \<in> set ws. 0 \<le> w \<and> w \<le> 1"
    and "0 \<le> s" and "s \<le> of_nat k" and "k + length ws < 2 ^ 53"
  shows "0 \<le> foldl (\<lambda>s w. round_double (s + w)) s ws
         \<and> foldl (\<lambda>s w. round_double (s + w)) s ws \<le> of_nat (k + length ws)"
  using assms
proof (induction ws arbitrary: s k)
  case Nil
  then show ?case by simp
next
  case (Cons w ws)
  have w: "0 \<le> w" "w \<le> 1" using Cons.prems(1) by simp_all
  have lo: "0 \<le> s + w" using w(1) Cons.prems(2) by simp
  have hi: "s + w \<le> of_nat (Suc k)" using w(2) Cons.prems(3) by simp
  have k: "Suc k < 2 ^ 53" using Cons.prems(4) by simp
  have s0: "0 \<le> round_double (s + w)" using lo by (rule round_double_nonneg)
  have s1: "round_double (s + w) \<le> of_nat (Suc k)" using lo hi k by (rule round_double_le_nat)
  have rest: "\<forall>w \<in> set ws. 0 \<le> w \<and> w \<le> 1" using Cons.prems(1) by simp
  have len: "Suc k + length ws < 2 ^ 53" using Cons.prems(4) by simp
  have "0 \<le> foldl (\<lambda>s w. round_double (s + w)) (round_double (s + w)) ws
     \<and> foldl (\<lambda>s w. round_double (s + w)) (round_double (s + w)) ws \<le> of_nat (Suc k + length ws)"
    using rest s0 s1 len by (rule Cons.IH)
  then show ?case by simp
qed

lemma double_average_bounds:
  assumes "fs \<noteq> []" and "length fs < 2 ^ 53"
  shows "0 \<le> double_average fs" and "double_average fs \<le> 1"
proof -
  let ?ws = "map (\<lambda>f. double_weight (confidence f)) fs"
  let ?n = "of_nat (length fs) :: rat"
  have n: "0 < ?n" using assms(1) by simp
  have "\<forall>w \<in> set ?ws. 0 \<le> w \<and> w \<le> 1" using double_weight_bounds by auto
  moreover have "(0::rat) \<le> 0" and "(0::rat) \<le> of_nat 0" by simp_all
  moreover have "0 + length ?ws < 2 ^ 53" using assms(2) by simp
  ultimately have "0 \<le> foldl (\<lambda>s w. round_double (s + w)) 0 ?ws
     \<and> foldl (\<lambda>s w. round_double (s + w)) 0 ?ws \<le> of_nat (0 + length ?ws)"
    by (rule double_fold_bounds)
  then have s: "0 \<le> double_sum ?ws" "double_sum ?ws \<le> ?n"
    by (simp_all add: double_sum_def)
  have q0: "0 \<le> double_sum ?ws / ?n" using s(1) n by simp
  have "double_sum ?ws / ?n \<le> 1" using s(2) n by simp
  then have q1: "double_sum ?ws / ?n \<le> of_nat 1" by simp
  show "0 \<le> double_average fs"
    unfolding double_average_def using q0 by (rule round_double_nonneg)
  have "round_double (double_sum ?ws / ?n) \<le> of_nat 1"
    using q0 q1 by (rule round_double_le_nat) simp
  then show "double_average fs \<le> 1" by (simp add: double_average_def)
qed

lemma round2_bounds:
  assumes "0 \<le> x" and "x \<le> 1"
  shows "0 \<le> round2 x" and "round2 x \<le> 1"
proof -
  let ?r = "round_half_even (x * 100)"
  have "0 \<le> x * 100" using assms(1) by simp
  then have r0: "0 \<le> ?r" by (rule round_half_even_nonneg)
  have "x * 100 \<le> of_int 100" using assms(2) by simp
  then have r1: "?r \<le> 100" by (rule round_half_even_le_int)
  have y0: "(0::rat) \<le> of_int ?r / 100" using r0 by simp
  have "(of_int ?r :: rat) \<le> 100" using r1 by (simp add: of_int_le_numeral_iff)
  then have "(of_int ?r :: rat) / 100 \<le> 1" by simp
  then have y1: "(of_int ?r :: rat) / 100 \<le> of_nat 1" by simp
  show "0 \<le> round2 x" unfolding round2_def using y0 by (rule round_double_nonneg)
  have "round_double (of_int ?r / 100) \<le> of_nat 1"
    using y0 y1 by (rule round_double_le_nat) simp
  then show "round2 x \<le> 1" by (simp add: round2_def)
qed








text \<open>
  Claim C4: for every list of verified claims (of fewer than \<open>2 ^ 53\<close> claims),
  \<open>score_response\<close> returns a report whose score lies between 0 and 1; the score is the
  average weight of the claims (weights 1.0, 0.6, 0.2 and 0.0), computed in doubles, which
  lies between 0 and 1, rounded to two decimals; and for the empty list the score is 0.0
  and the level \<open>unknown\<close>.
\<close>

theorem C4_score_range:
  assumes "length fs < 2 ^ 53"
  shows "(\<exists>r. score_response fs = Inr r
        \<and> 0 \<le> confidence_score r \<and> confidence_score r \<le> 1
        \<and> (fs \<noteq> [] \<longrightarrow> confidence_score r = round2 (double_average fs)
                           \<and> 0 \<le> double_average fs \<and> double_average fs \<le> 1))
   \<and> (\<exists>r. score_response [] = Inr r \<and> confidence_score r = 0 \<and> overall_confidence r = ''unknown'')"
proof (intro conjI)
  show "\<exists>r. score_response [] = Inr r \<and> confidence_score r = 0 \<and> overall_confidence r = ''unknown''"
    by (simp add: score_response_def)
  show "\<exists>r. score_response fs = Inr r
        \<and> 0 \<le> confidence_score r \<and> confidence_score r \<le> 1
        \<and> (fs \<noteq> [] \<longrightarrow> confidence_score r = round2 (double_average fs)
                           \<and> 0 \<le> double_average fs \<and> double_average fs \<le> 1)"
  proof (cases "fs = []")
    case True
    then show ?thesis by (simp add: score_response_def)
  next
    case False
    have low: "low_confidence (calculate_stats fs) = Some (length (filter (\<lambda>f. confidence f = ''low'') fs))"
      by (simp add: calculate_stats_def)
    have b: "0 \<le> double_average fs" "double_average fs \<le> 1"
      using double_average_bounds [OF False assms] by simp_all
    have rb: "0 \<le> round2 (double_average fs)" "round2 (double_average fs) \<le> 1"
      using round2_bounds [OF b] by simp_all
    show ?thesis
      using False b rb
      by (simp add: score_response_def Let_def determine_confidence_level_def low
          calculate_confidence_score_average [OF False assms])
  qed
qed

lemma average_facts_mostly_unknown:
  "double_average facts_mostly_unknown = 5404319552844595 / 72057594037927936"
  by code_simp

lemma round2_mostly_unknown:
  "round2 (5404319552844595 / 72057594037927936) = 1261007895663739 / 18014398509481984"
  by code_simp

theorem C4_score_range_witness:
  "length facts_mostly_unknown < 2 ^ 53 \<and> facts_mostly_unknown \<noteq> []
   \<and> (\<exists>r. score_response facts_mostly_unknown = Inr r
          \<and> confidence_score r = 1261007895663739 / 18014398509481984
          \<and> confidence_score r = round_double (7 / 100))"
proof -
  have ne: "facts_mostly_unknown \<noteq> []" by (simp add: facts_mostly_unknown_def)
  have len: "length facts_mostly_unknown < 2 ^ 53" by (simp add: facts_mostly_unknown_def)
  have d: "round_double (7 / 100) = 1261007895663739 / 18014398509481984" by code_simp
  show ?thesis
    using ne len C4_score_range [OF len]
    by (auto simp: average_facts_mostly_unknown round2_mostly_unknown d)
qed

section \<open>Claims about the verifier\<close>

lemma unverified_fields:
  "verified (unverified f n) = False"
  "confidence (unverified f n) = ''unknown''"
  "wikipedia_url (unverified f n) = None"
  "verification_note (unverified f n) = n"
  "entity (unverified f n) = entity f"
  "entity_type (unverified f n) = entity_type f"
  "sentence (unverified f n) = sentence f"
  by (simp_all add: unverified_def)

lemma verify_against_content_coupling:
  "(vr_verified (verify_against_content f ptext psummary)
      \<longrightarrow> vr_confidence (verify_against_content f ptext psummary) \<in> {''high'', ''medium''})
   \<and> (\<not> vr_verified (verify_against_content f ptext psummary)
      \<longrightarrow> vr_confidence (verify_against_content f ptext psummary) \<in> {''low'', ''unknown''})"
  by (simp add: verify_against_content_def Let_def)

lemma verify_facts_loop_map:
  "verify_facts_loop wiki fs acc = acc @ map (verify_fact wiki) fs"
  by (induction fs arbitrary: acc) simp_all

text \<open>
  Claim C5: \<open>verify_fact\<close> returns a result for every reference source and every claim
  (the lookup is the only step that can raise, and its exception is an outcome of the
  source, inside the \<open>try\<close> block). When the search key is empty or shorter than two
  characters once stripped, when the lookup raises, and when the page does not exist, the
  result is the claim with \<open>verified\<close> false, tier \<open>unknown\<close>, no link and a note: a fixed
  text, the text \<open>Error accessing Wikipedia: \<close> followed by the message of the exception,
  and the text \<open>No Wikipedia page found for\<close> followed by the quoted key. \<open>verify_facts\<close>
  returns the result of \<open>verify_fact\<close> for every claim of its list, in order.
\<close>

theorem C5_verify_fact_failures:
  "(let q = create_search_query (entity f) (entity_type f) (sentence f);
        r = verify_fact wiki f
    in (q = [] \<or> length (strip q) < 2 \<longrightarrow>
          \<not> verified r \<and> confidence r = ''unknown'' \<and> wikipedia_url r = None
          \<and> verification_note r = ''Could not create valid search query'')
     \<and> (\<forall>msg. \<not> (q = [] \<or> length (strip q) < 2) \<and> wiki q = Inl msg \<longrightarrow>
          \<not> verified r \<and> confidence r = ''unknown'' \<and> wikipedia_url r = None
          \<and> verification_note r = ''Error accessing Wikipedia: '' @ msg)
     \<and> (\<forall>p. \<not> (q = [] \<or> length (strip q) < 2) \<and> wiki q = Inr p \<and> \<not> page_exists p \<longrightarrow>
          \<not> verified r \<and> confidence r = ''unknown'' \<and> wikipedia_url r = None
          \<and> verification_note r = ''No Wikipedia page found for '' @ squote @ q @ squote)
     \<and> entity r = entity f \<and> entity_type r = entity_type f \<and> sentence r = sentence f)
   \<and> verify_facts wiki fs = map (verify_fact wiki) fs"
proof -
  have "verify_facts wiki fs = map (verify_fact wiki) fs"
    by (simp add: verify_facts_def verify_facts_loop_map)
  then show ?thesis
    by (auto simp: Let_def verify_fact_def unverified_fields split: sum.splits)
qed

lemma query_tokyo_gpe:
  "create_search_query (entity tokyo_gpe) (entity_type tokyo_gpe) (sentence tokyo_gpe) = ''Tokyo''"
  by (simp add: create_search_query_def tokyo_gpe_def)

lemma query_paris_gpe:
  "create_search_query (entity paris_gpe) (entity_type paris_gpe) (sentence paris_gpe) = ''Paris''"
  by (simp add: create_search_query_def paris_gpe_def)

lemma strip_tokyo: "strip ''Tokyo'' = ''Tokyo''"
  by (simp add: strip_def is_space_def)

lemma strip_paris: "strip ''Paris'' = ''Paris''"
  by (simp add: strip_def is_space_def)

lemma subject_date_no_subject: "extract_subject_from_sentence ''it was built in 2020'' = None"
  by (simp add: extract_subject_from_sentence_def match_the_phrase_def cap_phrase_def
      cap_word_def is_upper_def)

lemma query_date_no_subject:
  "create_search_query (entity date_no_subject) (entity_type date_no_subject)
     (sentence date_no_subject) = ''''"
  by (simp add: create_search_query_def date_no_subject_def subject_date_no_subject)

theorem C5_verify_fact_failures_witness:
  "verification_note (verify_fact wiki_tokyo date_no_subject) = ''Could not create valid search query''
   \<and> confidence (verify_fact wiki_tokyo date_no_subject) = ''unknown''
   \<and> \<not> verified (verify_fact wiki_tokyo date_no_subject)
   \<and> verification_note (verify_fact wiki_down tokyo_gpe) = ''Error accessing Wikipedia: timed out''
   \<and> confidence (verify_fact wiki_down tokyo_gpe) = ''unknown''
   \<and> \<not> verified (verify_fact wiki_down tokyo_gpe)
   \<and> verification_note (verify_fact wiki_no_page tokyo_gpe)
       = ''No Wikipedia page found for '' @ squote @ ''Tokyo'' @ squote
   \<and> confidence (verify_fact wiki_no_page tokyo_gpe) = ''unknown''
   \<and> \<not> verified (verify_fact wiki_no_page tokyo_gpe)"
proof -
  have a: "verification_note (verify_fact wiki_tokyo date_no_subject) = ''Could not create valid search query''
      \<and> confidence (verify_fact wiki_tokyo date_no_subject) = ''unknown''
      \<and> \<not> verified (verify_fact wiki_tokyo date_no_subject)"
    using C5_verify_fact_failures [of date_no_subject wiki_tokyo "[]"]
    by (simp add: Let_def query_date_no_subject)
  have b: "verification_note (verify_fact wiki_down tokyo_gpe) = ''Error accessing Wikipedia: timed out''
      \<and> confidence (verify_fact wiki_down tokyo_gpe) = ''unknown''
      \<and> \<not> verified (verify_fact wiki_down tokyo_gpe)"
    using C5_verify_fact_failures [of tokyo_gpe wiki_down "[]"]
    by (simp add: Let_def query_tokyo_gpe strip_tokyo wiki_down_def)
  have c: "verification_note (verify_fact wiki_no_page tokyo_gpe)
        = ''No Wikipedia page found for '' @ squote @ ''Tokyo'' @ squote
      \<and> confidence (verify_fact wiki_no_page tokyo_gpe) = ''unknown''
      \<and> \<not> verified (verify_fact wiki_no_page tokyo_gpe)"
    using C5_verify_fact_failures [of tokyo_gpe wiki_no_page "[]"]
    by (simp add: Let_def query_tokyo_gpe strip_tokyo wiki_no_page_def)
  from a b c show ?thesis by simp
qed

text \<open>
  Claim C9: for every reference source and every claim, the result of \<open>verify_fact\<close> has
  tier \<open>high\<close> or \<open>medium\<close> if \<open>verified\<close> is true, and tier \<open>low\<close> or \<open>unknown\<close> if
  \<open>verified\<close> is false; so has every result of \<open>verify_facts\<close>.
\<close>

theorem C9_verified_tier_coupling:
  "(verified (verify_fact wiki f) \<longrightarrow> confidence (verify_fact wiki f) \<in> {''high'', ''medium''})
   \<and> (\<not> verified (verify_fact wiki f) \<longrightarrow> confidence (verify_fact wiki f) \<in> {''low'', ''unknown''})
   \<and> (\<forall>r \<in> set (verify_facts wiki fs).
         (verified r \<longrightarrow> confidence r \<in> {''high'', ''medium''})
         \<and> (\<not> verified r \<longrightarrow> confidence r \<in> {''low'', ''unknown''}))"
proof -
  have one: "(verified (verify_fact wiki g) \<longrightarrow> confidence (verify_fact wiki g) \<in> {''high'', ''medium''})
     \<and> (\<not> verified (verify_fact wiki g) \<longrightarrow> confidence (verify_fact wiki g) \<in> {''low'', ''unknown''})"
    for g
  proof -
    let ?q = "create_search_query (entity g) (entity_type g) (sentence g)"
    show ?thesis
    proof (cases "?q = [] \<or> length (strip ?q) < 2")
      case True
      then show ?thesis by (simp add: verify_fact_def Let_def unverified_fields)
    next
      case False
      show ?thesis
      proof (cases "wiki ?q")
        case (Inl e)
        with False show ?thesis by (simp add: verify_fact_def Let_def unverified_fields)
      next
        case (Inr p)
        show ?thesis
        proof (cases "page_exists p")
          case True
          with False Inr show ?thesis
            using verify_against_content_coupling [of g "lower (page_text p)" "lower (page_summary p)"]
            by (simp add: verify_fact_def Let_def)
        next
          case False2: False
          with False Inr show ?thesis by (simp add: verify_fact_def Let_def unverified_fields)
        qed
      qed
    qed
  qed
  have "verify_facts wiki fs = map (verify_fact wiki) fs"
    by (simp add: verify_facts_def verify_facts_loop_map)
  then show ?thesis using one by auto
qed

lemma lower_tokyo_text:
  "lower ''Tokyo is the capital of Japan.'' = ''tokyo is the capital of japan.''"
  by (simp add: lower_def lower_char_def)

lemma lower_tokyo_summary: "lower ''Tokyo is a city.'' = ''tokyo is a city.''"
  by (simp add: lower_def lower_char_def)

lemma content_tokyo_gpe:
  "verify_against_content tokyo_gpe ''tokyo is the capital of japan.'' ''tokyo is a city.''
     = \<lparr>vr_verified = True, vr_confidence = ''high'', vr_note = ''Entity found in Wikipedia''\<rparr>"
proof -
  have "lower (entity tokyo_gpe) = ''tokyo''"
    by (simp add: tokyo_gpe_def lower_def lower_char_def)
  moreover have "str_contains ''tokyo is the capital of japan.'' ''tokyo''" by simp
  moreover have "entity_type tokyo_gpe = ''GPE''" by (simp add: tokyo_gpe_def)
  ultimately show ?thesis by (simp add: verify_against_content_def)
qed

lemma content_paris_gpe:
  "verify_against_content paris_gpe ''tokyo is the capital of japan.'' ''tokyo is a city.''
     = \<lparr>vr_verified = False, vr_confidence = ''low'',
        vr_note = ''Entity not found in Wikipedia page''\<rparr>"
proof -
  have "lower (entity paris_gpe) = ''paris''"
    by (simp add: paris_gpe_def lower_def lower_char_def)
  moreover have "\<not> str_contains ''tokyo is the capital of japan.'' ''paris''" by simp
  moreover have "\<not> str_contains ''tokyo is a city.'' ''paris''" by simp
  moreover have "entity_type paris_gpe = ''GPE''" by (simp add: paris_gpe_def)
  ultimately show ?thesis by (simp add: verify_against_content_def)
qed

lemma verify_tokyo_gpe: "verified (verify_fact wiki_tokyo tokyo_gpe)"
  by (simp add: verify_fact_def Let_def query_tokyo_gpe strip_tokyo wiki_tokyo_def
      lower_tokyo_text lower_tokyo_summary content_tokyo_gpe)

lemma verify_paris_gpe: "\<not> verified (verify_fact wiki_tokyo paris_gpe)"
  by (simp add: verify_fact_def query_paris_gpe strip_paris wiki_tokyo_def
      lower_tokyo_text lower_tokyo_summary content_paris_gpe)

theorem C9_verified_tier_coupling_witness:
  "verified (verify_fact wiki_tokyo tokyo_gpe)
   \<and> confidence (verify_fact wiki_tokyo tokyo_gpe) \<in> {''high'', ''medium''}
   \<and> \<not> verified (verify_fact wiki_tokyo paris_gpe)
   \<and> confidence (verify_fact wiki_tokyo paris_gpe) \<in> {''low'', ''unknown''}"
  using C9_verified_tier_coupling [of wiki_tokyo tokyo_gpe "[]"]
    C9_verified_tier_coupling [of wiki_tokyo paris_gpe "[]"]
    verify_tokyo_gpe verify_paris_gpe
  by simp

section \<open>Claims about the response formatter\<close>

lemma eiffel_spans:
  "create_fact_spans [eiffel_fact, eiffel_tower_fact] [] =
     [\<lparr>span_text = ''Eiffel'', span_status = ''verified'', span_color = ''green'',
       span_emoji = emoji_check, span_confidence = ''high'',
       span_url = Some ''https://en.wikipedia.org/wiki/Gustave_Eiffel'',
       span_note = ''Entity found in Wikipedia''\<rparr>,
      \<lparr>span_text = ''Eiffel Tower'', span_status = ''verified'', span_color = ''green'',
       span_emoji = emoji_check, span_confidence = ''high'',
       span_url = Some ''https://en.wikipedia.org/wiki/Eiffel_Tower'',
       span_note = ''Entity found in Wikipedia''\<rparr>]"
  by (simp add: create_fact_spans_def fact_span_def contradicted_entities_def
      List.map_filter_simps eiffel_fact_def eiffel_tower_fact_def)

lemma eiffel_sorted:
  "sorted_spans
     [\<lparr>span_text = ''Eiffel'', span_status = ''verified'', span_color = ''green'',
       span_emoji = emoji_check, span_confidence = ''high'',
       span_url = Some ''https://en.wikipedia.org/wiki/Gustave_Eiffel'',
       span_note = ''Entity found in Wikipedia''\<rparr>,
      \<lparr>span_text = ''Eiffel Tower'', span_status = ''verified'', span_color = ''green'',
       span_emoji = emoji_check, span_confidence = ''high'',
       span_url = Some ''https://en.wikipedia.org/wiki/Eiffel_Tower'',
       span_note = ''Entity found in Wikipedia''\<rparr>] =
     [\<lparr>span_text = ''Eiffel Tower'', span_status = ''verified'', span_color = ''green'',
       span_emoji = emoji_check, span_confidence = ''high'',
       span_url = Some ''https://en.wikipedia.org/wiki/Eiffel_Tower'',
       span_note = ''Entity found in Wikipedia''\<rparr>,
      \<lparr>span_text = ''Eiffel'', span_status = ''verified'', span_color = ''green'',
       span_emoji = emoji_check, span_confidence = ''high'',
       span_url = Some ''https://en.wikipedia.org/wiki/Gustave_Eiffel'',
       span_note = ''Entity found in Wikipedia''\<rparr>]"
  by (simp add: sorted_spans_def)

lemma markdown_first:
  "re_sub_first ''Eiffel Tower'' (emoji_check @ '' '' @ ''Eiffel Tower'') ''The Eiffel Tower is tall''
     = Inr (''The '' @ emoji_check @ '' Eiffel Tower is tall'')"
  by (simp add: re_sub_first_def emoji_check_def match_here_def word_boundary_def char_class_defs)

lemma markdown_second:
  "re_sub_first ''Eiffel'' (emoji_check @ '' '' @ ''Eiffel'')
       (''The '' @ emoji_check @ '' Eiffel Tower is tall'')
     = Inr (''The '' @ emoji_check @ '' '' @ emoji_check @ '' Eiffel Tower is tall'')"
  by (simp add: re_sub_first_def emoji_check_def match_here_def word_boundary_def char_class_defs)

lemma html_span_tower:
  "html_span \<lparr>span_text = ''Eiffel Tower'', span_status = ''verified'', span_color = ''green'',
       span_emoji = emoji_check, span_confidence = ''high'',
       span_url = Some ''https://en.wikipedia.org/wiki/Eiffel_Tower'',
       span_note = ''Entity found in Wikipedia''\<rparr>
     = found_tag ''https://en.wikipedia.org/wiki/Eiffel_Tower'' @ emoji_check @ '' Eiffel Tower</span>''"
  by (simp add: html_span_def found_tag_def)

lemma html_span_eiffel:
  "html_span \<lparr>span_text = ''Eiffel'', span_status = ''verified'', span_color = ''green'',
       span_emoji = emoji_check, span_confidence = ''high'',
       span_url = Some ''https://en.wikipedia.org/wiki/Gustave_Eiffel'',
       span_note = ''Entity found in Wikipedia''\<rparr>
     = found_tag ''https://en.wikipedia.org/wiki/Gustave_Eiffel'' @ emoji_check @ '' Eiffel</span>''"
  by (simp add: html_span_def found_tag_def)

lemma html_first:
  "re_sub_first ''Eiffel Tower''
       (found_tag ''https://en.wikipedia.org/wiki/Eiffel_Tower'' @ emoji_check @ '' Eiffel Tower</span>'')
       ''The Eiffel Tower is tall''
     = Inr (''The '' @ found_tag ''https://en.wikipedia.org/wiki/Eiffel_Tower'' @ emoji_check
              @ '' Eiffel Tower</span> is tall'')"
  by (simp add: re_sub_first_def found_tag_def dquote_def emoji_check_def match_here_def
      word_boundary_def char_class_defs)

lemma html_second:
  "re_sub_first ''Eiffel''
       (found_tag ''https://en.wikipedia.org/wiki/Gustave_Eiffel'' @ emoji_check @ '' Eiffel</span>'')
       (''The '' @ found_tag ''https://en.wikipedia.org/wiki/Eiffel_Tower'' @ emoji_check
              @ '' Eiffel Tower</span> is tall'')
     = Inr (''The '' @ found_tag ''https://en.wikipedia.org/wiki/Eiffel_Tower'' @ emoji_check @ '' ''
              @ found_tag ''https://en.wikipedia.org/wiki/Gustave_Eiffel'' @ emoji_check
              @ '' Eiffel</span> Tower</span> is tall'')"
  by (simp add: re_sub_first_def found_tag_def dquote_def emoji_check_def match_here_def
      word_boundary_def char_class_defs)

text \<open>
  Claim C8 says that, the entities being processed longest first and replaced at most
  once, the span of a longer entity is never partially consumed by a shorter entity that
  overlaps it. Each replacement searches the text as the earlier replacements left it: in
  \<open>The Eiffel Tower is tall\<close>, with the verified entities \<open>Eiffel\<close> and \<open>Eiffel Tower\<close>, the
  longer entity is marked first, and the first occurrence of \<open>Eiffel\<close> is then the one
  inside the rendering of \<open>Eiffel Tower\<close>. The markdown rendering marks it there,
  between the marker and the text of the longer entity, and the HTML rendering nests the
  element of \<open>Eiffel\<close> inside the element of \<open>Eiffel Tower\<close>.
\<close>

theorem C8_shorter_entity_nested:
  "create_markdown_format ''The Eiffel Tower is tall''
       (create_fact_spans [eiffel_fact, eiffel_tower_fact] [])
     = Inr (''The '' @ emoji_check @ '' '' @ emoji_check @ '' Eiffel Tower is tall'')
   \<and> create_html_format ''The Eiffel Tower is tall''
       (create_fact_spans [eiffel_fact, eiffel_tower_fact] [])
     = Inr (''The '' @ found_tag ''https://en.wikipedia.org/wiki/Eiffel_Tower'' @ emoji_check @ '' ''
              @ found_tag ''https://en.wikipedia.org/wiki/Gustave_Eiffel'' @ emoji_check
              @ '' Eiffel</span> Tower</span> is tall'')"
proof
  show "create_markdown_format ''The Eiffel Tower is tall''
       (create_fact_spans [eiffel_fact, eiffel_tower_fact] [])
     = Inr (''The '' @ emoji_check @ '' '' @ emoji_check @ '' Eiffel Tower is tall'')"
    unfolding create_markdown_format_def eiffel_spans eiffel_sorted
    using markdown_first markdown_second by simp
  show "create_html_format ''The Eiffel Tower is tall''
       (create_fact_spans [eiffel_fact, eiffel_tower_fact] [])
     = Inr (''The '' @ found_tag ''https://en.wikipedia.org/wiki/Eiffel_Tower'' @ emoji_check @ '' ''
              @ found_tag ''https://en.wikipedia.org/wiki/Gustave_Eiffel'' @ emoji_check
              @ '' Eiffel</span> Tower</span> is tall'')"
    unfolding create_html_format_def eiffel_spans eiffel_sorted
    using html_first html_second by (simp add: html_span_tower html_span_eiffel)
qed

end
